theory Spec2Isabelle
  imports Complex_Main "HOL-Library.AList"
begin

section \<open>Python strings\<close>

text \<open>
  The extractors work on the text of PDF pages. A Python \<open>str\<close> is modelled as a HOL
  \<open>string\<close>; the character classes below are the ASCII part of what Python's
  \<open>str.isdigit\<close>, \<open>str.isspace\<close> and the \<open>re\<close> classes \<open>\d\<close>, \<open>\s\<close>, \<open>[A-Z]\<close>
  accept (the non-ASCII digits and spaces of Unicode are outside the model).
\<close>

definition is_digit :: "char \<Rightarrow> bool" where
  "is_digit c = (c \<in> set ''0123456789'')"

definition is_space :: "char \<Rightarrow> bool" where
  "is_space c = (c \<in> set [CHR '' '', CHR 0x09, CHR 0x0A, CHR 0x0B, CHR 0x0C, CHR 0x0D,
                            CHR 0x1C, CHR 0x1D, CHR 0x1E, CHR 0x1F])"

definition is_upper :: "char \<Rightarrow> bool" where
  "is_upper c = (c \<in> set ''ABCDEFGHIJKLMNOPQRSTUVWXYZ'')"

text \<open>\<open>s.isdigit()\<close>: every character is a digit and there is at least one.\<close>

definition isdigit :: "string \<Rightarrow> bool" where
  "isdigit s = (s \<noteq> [] \<and> list_all is_digit s)"

text \<open>\<open>s.startswith(p)\<close> and \<open>p in s\<close>.\<close>

definition startswith :: "string \<Rightarrow> string \<Rightarrow> bool" where
  "startswith s p = (take (length p) s = p)"

fun contains :: "string \<Rightarrow> string \<Rightarrow> bool" where
  "contains [] p = (p = [])"
| "contains (c # cs) p = (startswith (c # cs) p \<or> contains cs p)"

text \<open>\<open>s.find(p)\<close>: the lowest index where \<open>p\<close> occurs, or \<open>-1\<close>.\<close>

fun find_from :: "nat \<Rightarrow> string \<Rightarrow> string \<Rightarrow> int" where
  "find_from i [] p = (if p = [] then int i else - 1)"
| "find_from i (c # cs) p = (if startswith (c # cs) p then int i else find_from (Suc i) cs p)"

definition py_find :: "string \<Rightarrow> string \<Rightarrow> int" where
  "py_find s p = find_from 0 s p"

text \<open>\<open>s.strip()\<close>.\<close>

definition strip :: "string \<Rightarrow> string" where
  "strip s = rev (dropWhile is_space (rev (dropWhile is_space s)))"

text \<open>\<open>s.split(d)\<close> for a one-character separator: empty fields are kept.\<close>

fun split_on :: "char \<Rightarrow> string \<Rightarrow> string list" where
  "split_on d [] = [[]]"
| "split_on d (c # cs) =
     (if c = d then [] # split_on d cs
      else (case split_on d cs of [] \<Rightarrow> [[c]] | x # xs \<Rightarrow> (c # x) # xs))"

text \<open>
  The maximal runs of characters that satisfy a predicate, left to right. With
  \<open>is_digit\<close> this is \<open>re.findall(r'\d+', s)\<close>; with the non-spaces it is \<open>s.split()\<close>.
\<close>

fun runs :: "(char \<Rightarrow> bool) \<Rightarrow> string \<Rightarrow> string \<Rightarrow> string list" where
  "runs p cur [] = (if cur = [] then [] else [cur])"
| "runs p cur (c # cs) =
     (if p c then runs p (cur @ [c]) cs
      else (if cur = [] then [] else [cur]) @ runs p [] cs)"

definition findall_digits :: "string \<Rightarrow> string list" where
  "findall_digits s = runs is_digit [] s"

definition split_ws :: "string \<Rightarrow> string list" where
  "split_ws s = runs (\<lambda>c. \<not> is_space c) [] s"

text \<open>\<open>text.replace('10,000', '10000')\<close>: every occurrence, left to right.\<close>

fun replace_10k :: "string \<Rightarrow> string" where
  "replace_10k [] = []"
| "replace_10k (c # cs) =
     (if startswith (c # cs) ''10,000'' then ''10000'' @ replace_10k (drop 5 cs)
      else c # replace_10k cs)"

text \<open>\<open>s.replace(',', '')\<close>.\<close>

definition drop_commas :: "string \<Rightarrow> string" where
  "drop_commas s = filter (\<lambda>c. c \<noteq> CHR '','') s"

subsection \<open>Integers and their decimal text\<close>

datatype py_error = IndexError | ValueError

definition digit_char :: "nat \<Rightarrow> char" where
  "digit_char d = ''0123456789'' ! d"

definition digit_val :: "char \<Rightarrow> nat" where
  "digit_val c = of_char c - 48"

text \<open>The decimal digits of a non-negative integer.\<close>

function str_digits :: "int \<Rightarrow> string" where
  "str_digits i =
     (if i < 10 then [digit_char (nat i)]
      else str_digits (i div 10) @ [digit_char (nat (i mod 10))])"
  by pat_completeness auto
termination
  by (relation "measure (\<lambda>i. nat i)") auto

declare str_digits.simps [simp del]

text \<open>\<open>str(i)\<close> for an integer.\<close>

definition str_int :: "int \<Rightarrow> string" where
  "str_int i = (if i < 0 then CHR ''-'' # str_digits (- i) else str_digits i)"

definition int_of_digits :: "string \<Rightarrow> int" where
  "int_of_digits s = foldl (\<lambda>a c. 10 * a + int (digit_val c)) 0 s"

text \<open>
  \<open>int(s)\<close> for a text in base 10: blanks around it are dropped, a sign may lead,
  and the rest is digits, with single underscores allowed between digits. Anything
  else raises \<open>ValueError\<close>. \<open>digits_us\<close> reads the part after the sign; its flag
  says that the character before was a digit.
\<close>

fun digits_us :: "bool \<Rightarrow> string \<Rightarrow> bool" where
  "digits_us prev [] = prev"
| "digits_us prev (c # cs) =
     (if is_digit c then digits_us True cs
      else if c = CHR ''_'' \<and> prev then digits_us False cs
      else False)"

definition py_int :: "string \<Rightarrow> py_error + int" where
  "py_int s =
     (let t = strip s;
          signed = (startswith t ''-'' \<or> startswith t ''+'');
          body = (if signed then drop 1 t else t)
      in if digits_us False body then
           Inr ((if startswith t ''-'' then - 1 else 1) * int_of_digits (filter is_digit body))
         else Inl ValueError)"

section \<open>Regular expressions\<close>

text \<open>
  The patterns of the extractors use literals, character classes, greedy and lazy
  repetition of a class, capture groups, alternation and the anchors \<open>^\<close> and \<open>$\<close>. A
  pattern is a list of \<open>rx\<close>; \<open>mseq\<close> returns every way the pattern matches at a
  position, in the order in which a backtracking matcher tries them, so the head of
  the list is the match Python's \<open>re\<close> reports.
\<close>

datatype cclass = Digit | Space | DigitOrSpace | Upper | AnyChar

fun in_class :: "cclass \<Rightarrow> char \<Rightarrow> bool" where
  "in_class Digit c = is_digit c"
| "in_class Space c = is_space c"
| "in_class DigitOrSpace c = (is_digit c \<or> is_space c)"
| "in_class Upper c = is_upper c"
| "in_class AnyChar c = (c \<noteq> CHR 0x0A)"

datatype rx =
    Lit string
  | One cclass
  | Rep cclass nat "nat option" bool
  | Group nat "rx list"
  | Alt "rx list" "rx list"
  | Bol
  | Eol

text \<open>
  A matcher state: the position reached, the text still to read, and the capture
  groups closed so far (group number, start, end), the most recent first.
\<close>

type_synonym mstate = "nat \<times> string \<times> (nat \<times> nat \<times> nat) list"

text \<open>
  \<open>rep_ends k hi n p r\<close>: the states after \<open>n, n + 1, ...\<close> characters of class \<open>k\<close>,
  as far as the text and the upper bound \<open>hi\<close> allow, each with its count.
\<close>

fun rep_ends :: "cclass \<Rightarrow> nat option \<Rightarrow> nat \<Rightarrow> nat \<Rightarrow> string \<Rightarrow> (nat \<times> nat \<times> string) list" where
  "rep_ends k hi n p [] = [(n, p, [])]"
| "rep_ends k hi n p (x # xs) =
     (n, p, x # xs) #
     (if in_class k x \<and> (case hi of None \<Rightarrow> True | Some h \<Rightarrow> n < h)
      then rep_ends k hi (Suc n) (Suc p) xs else [])"

fun ms :: "rx \<Rightarrow> mstate \<Rightarrow> mstate list"
  and mseq :: "rx list \<Rightarrow> mstate \<Rightarrow> mstate list" where
  "ms (Lit s) (p, r, c) =
     (if startswith r s then [(p + length s, drop (length s) r, c)] else [])"
| "ms (One k) (p, r, c) =
     (case r of [] \<Rightarrow> [] | x # xs \<Rightarrow> if in_class k x then [(Suc p, xs, c)] else [])"
| "ms (Rep k lo hi greedy) (p, r, c) =
     (let ends = filter (\<lambda>(n, _). lo \<le> n) (rep_ends k hi 0 p r)
      in map (\<lambda>(n, p', r'). (p', r', c)) (if greedy then rev ends else ends))"
| "ms (Group g body) (p, r, c) =
     map (\<lambda>(p', r', c'). (p', r', (g, p, p') # c')) (mseq body (p, r, c))"
| "ms (Alt a b) st = mseq a st @ mseq b st"
| "ms Bol (p, r, c) = (if p = 0 then [(p, r, c)] else [])"
| "ms Eol (p, r, c) = (if r = [] \<or> r = [CHR 0x0A] then [(p, r, c)] else [])"
| "mseq [] st = [st]"
| "mseq (x # xs) st = concat (map (mseq xs) (ms x st))"

text \<open>\<open>re.match(pattern, s)\<close>: the first match at position 0.\<close>

definition re_match :: "rx list \<Rightarrow> string \<Rightarrow> mstate option" where
  "re_match re s = (case mseq re (0, s, []) of [] \<Rightarrow> None | m # _ \<Rightarrow> Some m)"

text \<open>\<open>re.search(pattern, s)\<close>: the first match at the leftmost position that has one.\<close>

fun search_at :: "rx list \<Rightarrow> nat \<Rightarrow> string \<Rightarrow> mstate option" where
  "search_at re p r =
     (case mseq re (p, r, []) of
        m # _ \<Rightarrow> Some m
      | [] \<Rightarrow> (case r of [] \<Rightarrow> None | _ # r' \<Rightarrow> search_at re (Suc p) r'))"

definition re_search :: "rx list \<Rightarrow> string \<Rightarrow> mstate option" where
  "re_search re s = search_at re 0 s"

text \<open>\<open>m.group(g)\<close> for a group that took part in the match \<open>m\<close> of \<open>s\<close>.\<close>

definition group :: "string \<Rightarrow> mstate \<Rightarrow> nat \<Rightarrow> string" where
  "group s m g =
     (case map_of (snd (snd m)) g of
        None \<Rightarrow> []
      | Some (a, b) \<Rightarrow> take (b - a) (drop a s))"

text \<open>
  \<open>re.sub(pattern, '', s)\<close> for a pattern that begins with \<open>^\<close> and cannot match the
  empty string: the only match is at position 0, and the result is what follows it.
\<close>

definition re_sub_bol :: "rx list \<Rightarrow> string \<Rightarrow> string" where
  "re_sub_bol re s = (case re_match re s of None \<Rightarrow> s | Some (p, r, c) \<Rightarrow> r)"

section \<open>Records and the reference atmosphere\<close>

text \<open>
  A record of a table is the Python list \<open>[str(weight), altitude, str(temperature), value]\<close>.
  Three of its fields are texts. The temperature of a reference-atmosphere record is
  \<open>str(t)\<close> for a float \<open>t\<close>: the cell \<open>Num t\<close> stands for that text. Floats are
  modelled by the rational numbers their decimal literals denote, with exact
  arithmetic; the rounding and the range of binary floating point are outside the
  model.
\<close>

datatype cell = Txt string | Num rat

type_synonym row = "cell list"

definition header :: row where
  "header = [Txt ''weight'', Txt ''altitude'', Txt ''temperature'', Txt ''value'']"

text \<open>The key of a record: its weight, altitude and temperature.\<close>

definition key_of :: "row \<Rightarrow> cell list" where
  "key_of r = take 3 r"

text \<open>\<open>isa_values\<close>, the dictionary of \<open>calculate_isa_temp\<close>, literal by literal.\<close>

definition isa_values :: "(int \<times> rat) list" where
  "isa_values =
     [(0, 15.0),
      (1000, 13.0188),
      (2000, 11.037600000000001),
      (3000, 9.0564),
      (4000, 7.075200000000001),
      (5000, 5.094000000000001),
      (6000, 3.112800000000002),
      (7000, 1.1316000000000006),
      (8000, - 0.8495999999999988),
      (9000, - 2.8308),
      (10000, - 4.811999999999998)]"

definition isa_lapse_rate :: rat where
  "isa_lapse_rate = 1.98"

text \<open>\<open>isa_values.get(altitude, 15.0 - (altitude / 1000.0 * self.isa_lapse_rate))\<close>\<close>

definition calculate_isa_temp :: "int \<Rightarrow> rat" where
  "calculate_isa_temp altitude =
     (case map_of isa_values altitude of
        Some t \<Rightarrow> t
      | None \<Rightarrow> 15.0 - (of_int altitude / 1000.0 * isa_lapse_rate))"

text \<open>Python slices \<open>xs[a:b]\<close> with \<open>0 \<le> a\<close>, and indexing \<open>xs[i]\<close> with an integer.\<close>

definition slice :: "'a list \<Rightarrow> nat \<Rightarrow> nat \<Rightarrow> 'a list" where
  "slice xs a b = take (b - a) (drop a xs)"

definition py_index :: "'a list \<Rightarrow> int \<Rightarrow> py_error + 'a" where
  "py_index xs i =
     (if 0 \<le> i \<and> i < int (length xs) then Inr (xs ! nat i)
      else if i < 0 \<and> - int (length xs) \<le> i then Inr (xs ! nat (int (length xs) + i))
      else Inl IndexError)"

section \<open>The G1 extractor\<close>

text \<open>
  The document is the list of the texts of its pages, as \<open>page.extract_text()\<close>
  returns them; \<open>len(pdf_reader.pages)\<close> is the length of the list.
\<close>

type_synonym document = "string list"

definition extract_text_from_page :: "document \<Rightarrow> int \<Rightarrow> py_error + string" where
  "extract_text_from_page pages page_num =
     (if page_num \<le> int (length pages) then py_index pages (page_num - 1) else Inr [])"

subsection \<open>Takeoff tables\<close>

definition takeoff_temps :: "int list" where
  "takeoff_temps = [- 20, - 10, 0, 10, 20, 30, 40, 50]"

definition add_performance_values ::
  "row list \<Rightarrow> int \<Rightarrow> string \<Rightarrow> string list \<Rightarrow> int list \<Rightarrow> py_error + row list" where
  "add_performance_values data weight altitude values temps =
     (case py_int altitude of
        Inl e \<Rightarrow> Inl e
      | Inr alt_int \<Rightarrow>
         (let expected_cols =
                (if alt_int \<ge> 5000 \<and> length values \<le> 9 then
                   (if length values = 9 then 8
                    else if length values = 8 then 7
                    else if length values = 7 then 6
                    else min (length values) 8)
                 else min (length values) 8);
              data1 = data @
                map (\<lambda>j. [Txt (str_int weight), Txt altitude, Txt (str_int (temps ! j)), Txt (values ! j)])
                  (filter (\<lambda>j. j < length temps \<and> j < length values) [0..<expected_cols])
          in Inr (if length values > expected_cols
                  then data1 @ [[Txt (str_int weight), Txt altitude,
                                 Num (calculate_isa_temp alt_int), Txt (last values)]]
                  else data1)))"

text \<open>The patterns of \<open>parse_takeoff_tables\<close>:
  \<^verbatim>\<open>(SL|\d+)\s*Gnd\s*Roll\<close>, \<^verbatim>\<open>^.*?Gnd\s*Roll\s*\<close> and \<^verbatim>\<open>^.*?Total\s*\<close>.\<close>

definition rx_gnd_roll :: "rx list" where
  "rx_gnd_roll =
     [Group 1 [Alt [Lit ''SL''] [Rep Digit 1 None True]], Rep Space 0 None True,
      Lit ''Gnd'', Rep Space 0 None True, Lit ''Roll'']"

definition rx_upto_gnd_roll :: "rx list" where
  "rx_upto_gnd_roll =
     [Bol, Rep AnyChar 0 None False, Lit ''Gnd'', Rep Space 0 None True, Lit ''Roll'',
      Rep Space 0 None True]"

definition rx_upto_total :: "rx list" where
  "rx_upto_total = [Bol, Rep AnyChar 0 None False, Lit ''Total'', Rep Space 0 None True]"

text \<open>
  The state of the loop over the lines of a page: \<open>current_altitude\<close>,
  \<open>ground_run_data\<close> and \<open>total_distance_data\<close>.
\<close>

type_synonym takeoff_state = "string option \<times> row list \<times> row list"

definition takeoff_line :: "int \<Rightarrow> takeoff_state \<Rightarrow> string \<Rightarrow> py_error + takeoff_state" where
  "takeoff_line weight st raw =
     (let line = strip raw; current_altitude = fst st; grounds = fst (snd st); totals = snd (snd st) in
      if contains line ''Gnd Roll'' then
        (case re_search rx_gnd_roll line of
           None \<Rightarrow> Inr st
         | Some m \<Rightarrow>
            (let a0 = (if group line m 1 = ''SL'' then ''0'' else group line m 1);
                 a = (if a0 = ''000'' then ''10000'' else a0);
                 values = findall_digits (re_sub_bol rx_upto_gnd_roll line)
             in if values \<noteq> [] then
                  (case add_performance_values grounds weight a values takeoff_temps of
                     Inl e \<Rightarrow> Inl e
                   | Inr grounds' \<Rightarrow> Inr (Some a, grounds', totals))
                else Inr (Some a, grounds, totals)))
      else if contains line ''Total'' then
        (case current_altitude of
           None \<Rightarrow> Inr st
         | Some a \<Rightarrow>
            (let values = findall_digits (drop_commas (re_sub_bol rx_upto_total line))
             in if values \<noteq> [] then
                  (case add_performance_values totals weight a values takeoff_temps of
                     Inl e \<Rightarrow> Inl e
                   | Inr totals' \<Rightarrow> Inr (current_altitude, grounds, totals'))
                else Inr st))
      else Inr st)"

fun takeoff_lines :: "int \<Rightarrow> takeoff_state \<Rightarrow> string list \<Rightarrow> py_error + takeoff_state" where
  "takeoff_lines weight st [] = Inr st"
| "takeoff_lines weight st (l # ls) =
     (case takeoff_line weight st l of
        Inl e \<Rightarrow> Inl e
      | Inr st' \<Rightarrow> takeoff_lines weight st' ls)"

text \<open>\<open>parse_takeoff_tables\<close> returns \<open>(ground_run_data, total_distance_data)\<close>.\<close>

definition parse_takeoff_tables :: "document \<Rightarrow> int \<Rightarrow> int \<Rightarrow> py_error + (row list \<times> row list)" where
  "parse_takeoff_tables pages page_num weight =
     (case extract_text_from_page pages page_num of
        Inl e \<Rightarrow> Inl e
      | Inr text \<Rightarrow>
         (case takeoff_lines weight (None, [], []) (split_on (CHR 0x0A) text) of
            Inl e \<Rightarrow> Inl e
          | Inr st \<Rightarrow> Inr (snd st)))"

subsection \<open>Landing tables\<close>

definition add_landing_values ::
  "row list \<Rightarrow> int \<Rightarrow> string \<Rightarrow> string list \<Rightarrow> string \<Rightarrow> py_error + row list" where
  "add_landing_values data weight altitude values flap_setting =
     (case py_int altitude of
        Inl e \<Rightarrow> Inl e
      | Inr alt_int \<Rightarrow>
         (if length values > 0 then
            (let ice = (flap_setting = ''50 ice'');
                 all_temps = (if ice then [- 10, 0, 10] else [10, 20, 30, 40, 50 :: int]);
                 data1 = data @ [[Txt (str_int weight), Txt altitude,
                                  Txt (if ice then ''-20'' else ''0''), Txt (values ! 0)]]
             in if length values > 1 then
                  (let num_temp_values = length values - 2;
                       rows = (\<lambda>n. map (\<lambda>i. [Txt (str_int weight), Txt altitude,
                                               Txt (str_int (all_temps ! i)), Txt (values ! (i + 1))])
                                     (filter (\<lambda>i. i < length all_temps) [0..<n]))
                   in if ice then Inr (data1 @ rows (length values - 1))
                      else Inr (data1 @ rows num_temp_values @
                                [[Txt (str_int weight), Txt altitude,
                                  Num (calculate_isa_temp alt_int), Txt (last values)]]))
                else Inr data1)
          else Inr data))"

subsection \<open>Climb tables\<close>

definition climb_weights :: "int list" where
  "climb_weights = [6000, 5500, 5000, 4500]"

definition climb_temps :: "int list" where
  "climb_temps = [- 30, - 20, - 10, 0, 10, 20, 30, 40, 50]"

text \<open>The altitude patterns:
  \<^verbatim>\<open>\d+-\d+(\d{4})-40\s+([\d\s]+)\<close> (an altitude behind a page number) and
  \<^verbatim>\<open>^(\d{1,5})\s*-40\s+([\d\s]+)\<close>.\<close>

definition rx_embedded :: "rx list" where
  "rx_embedded =
     [Rep Digit 1 None True, Lit ''-'', Rep Digit 1 None True,
      Group 1 [Rep Digit 4 (Some 4) True], Lit ''-40'', Rep Space 1 None True,
      Group 2 [Rep DigitOrSpace 1 None True]]"

definition rx_standalone :: "rx list" where
  "rx_standalone =
     [Bol, Group 1 [Rep Digit 1 (Some 5) True], Rep Space 0 None True, Lit ''-40'',
      Rep Space 1 None True, Group 2 [Rep DigitOrSpace 1 None True]]"

text \<open>The patterns of the temperatures 41 to 50:
  \<^verbatim>\<open>^\d{2}\s+\d\<close> and \<^verbatim>\<open>^(\d{2})\s+([\d\s]+?)(?:[A-Z]|$)\<close>.\<close>

definition rx_special_probe :: "rx list" where
  "rx_special_probe = [Bol, Rep Digit 2 (Some 2) True, Rep Space 1 None True, One Digit]"

definition rx_special :: "rx list" where
  "rx_special =
     [Bol, Group 1 [Rep Digit 2 (Some 2) True], Rep Space 1 None True,
      Group 2 [Rep DigitOrSpace 1 None False], Alt [One Upper] [Eol]]"

text \<open>An entry of \<open>altitude_data\<close>: the line index, the altitude and the first four values.\<close>

type_synonym anchor = "nat \<times> string \<times> string list"

definition anchor_match :: "rx list \<Rightarrow> nat \<Rightarrow> string \<Rightarrow> py_error + anchor list" where
  "anchor_match re i line =
     (case re_search re line of
        None \<Rightarrow> Inr []
      | Some m \<Rightarrow>
         (let altitude = group line m 1 in
          case py_int altitude of
            Inl e \<Rightarrow> Inl e
          | Inr a \<Rightarrow>
             if a \<le> 10000 \<and> a mod 1000 = 0 then
               (let values = findall_digits (group line m 2)
                in if length values \<ge> 4 then Inr [(i, altitude, take 4 values)] else Inr [])
             else Inr []))"

fun find_altitudes :: "nat \<Rightarrow> string list \<Rightarrow> py_error + anchor list" where
  "find_altitudes i [] = Inr []"
| "find_altitudes i (line # ls) =
     (case anchor_match rx_embedded i line of
        Inl e \<Rightarrow> Inl e
      | Inr a \<Rightarrow>
         (case anchor_match rx_standalone i line of
            Inl e \<Rightarrow> Inl e
          | Inr b \<Rightarrow>
             (case find_altitudes (Suc i) ls of
                Inl e \<Rightarrow> Inl e
              | Inr c \<Rightarrow> Inr (a @ b @ c))))"

text \<open>
  The column reconstructor of the mangled 0 degree rows: \<open>remaining\<close> is the digits of
  the line after the leading \<open>0\<close>, and the result is the list \<open>values\<close>.
\<close>

definition partition_digits :: "string \<Rightarrow> string \<Rightarrow> string list" where
  "partition_digits altitude remaining =
     (if length remaining = 16 then
        map (\<lambda>i. slice remaining i (i + 4)) [0, 4, 8, 12]
      else if length remaining = 15 then
        [slice remaining 0 3, slice remaining 3 7, slice remaining 7 11, slice remaining 11 15]
      else if length remaining = 14 then
        (if altitude = ''10000'' \<and> startswith remaining ''809'' then
           [slice remaining 0 3, slice remaining 3 6, slice remaining 6 10, slice remaining 10 14]
         else
           [slice remaining 0 3, slice remaining 3 7, slice remaining 7 11, slice remaining 11 14])
      else if length remaining \<ge> 12 then
        (if altitude \<in> set [''8000'', ''9000'', ''10000''] then
           [slice remaining 0 3, slice remaining 3 7, slice remaining 7 11] @
           (if length remaining \<ge> 15 then [slice remaining 11 15] else [])
         else
           map (\<lambda>i. slice remaining i (i + 4))
             (filter (\<lambda>i. i + 3 < length remaining)
                (filter (\<lambda>i. i < min (length remaining) 16) [0, 4, 8, 12])))
      else [])"

text \<open>
  The special handling of a line that starts with \<open>0\<close>: the values to store under the
  temperature 0, or \<open>None\<close> when the line is left to the other patterns.
\<close>

definition mangled_zero :: "string \<Rightarrow> string \<Rightarrow> string list option" where
  "mangled_zero altitude next_line =
     (if startswith next_line ''0'' \<and> length next_line > 10 \<and>
         (CHR '' '' \<in> set (slice next_line 1 5) \<or> \<not> startswith next_line ''0 '') then
        (let all_digits = filter is_digit next_line in
         if length all_digits \<ge> 13 \<and> hd all_digits = CHR ''0'' then
           (let remaining = drop 1 all_digits;
                values = partition_digits altitude remaining
            in if length values \<ge> 3 then Some (take 4 values) else None)
         else None)
      else None)"

text \<open>The loop over \<open>temps\<close>: the first temperature whose line has enough values.\<close>

fun normal_temp :: "string \<Rightarrow> string \<Rightarrow> int list \<Rightarrow> py_error + (int \<times> string list) option" where
  "normal_temp altitude next_line [] = Inr None"
| "normal_temp altitude next_line (temp # ts) =
     (if startswith next_line (str_int temp @ '' '') then
        (let values = findall_digits (drop (length (str_int temp)) next_line) in
         case py_int altitude of
           Inl e \<Rightarrow> Inl e
         | Inr a \<Rightarrow>
            (let min_values = (if a \<ge> 9000 \<and> temp \<ge> 40 then 3 else 4 :: nat)
             in if length values \<ge> min_values then Inr (Some (temp, take 4 values))
                else normal_temp altitude next_line ts))
      else normal_temp altitude next_line ts)"

definition special_temp :: "string \<Rightarrow> py_error + (int \<times> string list) option" where
  "special_temp next_line =
     (if re_match rx_special_probe next_line \<noteq> None then
        (case re_match rx_special next_line of
           None \<Rightarrow> Inr None
         | Some m \<Rightarrow>
            (case py_int (group next_line m 1) of
               Inl e \<Rightarrow> Inl e
             | Inr temp_val \<Rightarrow>
                if 41 \<le> temp_val \<and> temp_val \<le> 50 then
                  (let values = findall_digits (group next_line m 2)
                   in if length values \<ge> 3 then Inr (Some (temp_val, take 4 values)) else Inr None)
                else Inr None))
      else Inr None)"

text \<open>
  What one line after an altitude does to \<open>temp_data\<close>: it stores values under a
  temperature (an assignment to the dictionary, so an earlier entry of that
  temperature is replaced), it is passed over, or it ends the loop.
\<close>

datatype outcome = Stored int "string list" | Passed | Stop

definition scan_line :: "string \<Rightarrow> string \<Rightarrow> py_error + outcome" where
  "scan_line altitude next_line =
     (case mangled_zero altitude next_line of
        Some values \<Rightarrow> Inr (Stored 0 values)
      | None \<Rightarrow>
         (case normal_temp altitude next_line climb_temps of
            Inl e \<Rightarrow> Inl e
          | Inr (Some (temp, values)) \<Rightarrow> Inr (Stored temp values)
          | Inr None \<Rightarrow>
             (case special_temp next_line of
                Inl e \<Rightarrow> Inl e
              | Inr (Some (temp, values)) \<Rightarrow> Inr (Stored temp values)
              | Inr None \<Rightarrow>
                 if contains next_line ''Engine'' \<or> contains next_line ''Press'' \<or>
                    contains next_line ''-40''
                 then Inr Stop else Inr Passed)))"

text \<open>
  \<open>temp_data\<close> is a dictionary from temperatures to value lists, kept as an
  association list in insertion order; \<open>processed_lines\<close> is a set of line indices.
\<close>

type_synonym temp_data = "(int \<times> string list) list"

text \<open>The \<open>while\<close> loop over \<open>j = 1, ..., 14\<close>.\<close>

fun scan :: "string list \<Rightarrow> nat \<Rightarrow> string \<Rightarrow> nat list \<Rightarrow> temp_data \<times> nat set \<Rightarrow>
    py_error + (temp_data \<times> nat set)" where
  "scan lines line_idx altitude [] st = Inr st"
| "scan lines line_idx altitude (j # js) (td, processed) =
     (if \<not> line_idx + j < length lines then Inr (td, processed)
      else if line_idx + j \<in> processed then scan lines line_idx altitude js (td, processed)
      else
        (case scan_line altitude (strip (lines ! (line_idx + j))) of
           Inl e \<Rightarrow> Inl e
         | Inr (Stored temp values) \<Rightarrow>
             scan lines line_idx altitude js
               (AList.update temp values td, insert (line_idx + j) processed)
         | Inr Passed \<Rightarrow> scan lines line_idx altitude js (td, processed)
         | Inr Stop \<Rightarrow> Inr (td, processed)))"

text \<open>The records of one temperature of one altitude.\<close>

definition emit_rows :: "string \<Rightarrow> int \<Rightarrow> string list \<Rightarrow> row list" where
  "emit_rows altitude temp values =
     (if length values < length climb_weights then
        (let weight_offset = length climb_weights - length values in
         map (\<lambda>(v_idx, v). [Txt (str_int (climb_weights ! (weight_offset + v_idx))),
                             Txt altitude, Txt (str_int temp), Txt v])
           (filter (\<lambda>(v_idx, v). isdigit v) (enumerate 0 values)))
      else
        map (\<lambda>(w_idx, v). [Txt (str_int (climb_weights ! w_idx)),
                            Txt altitude, Txt (str_int temp), Txt v])
          (filter (\<lambda>(w_idx, v). w_idx < length climb_weights \<and> isdigit v) (enumerate 0 values)))"

text \<open>
  \<open>for temp, values in sorted(temp_data.items())\<close>: the keys of a dictionary are
  distinct, so the pairs are sorted by temperature.
\<close>

definition emit_altitude :: "string \<Rightarrow> temp_data \<Rightarrow> row list" where
  "emit_altitude altitude td =
     concat (map (\<lambda>(temp, values). emit_rows altitude temp values) (sort_key fst td))"

fun process_altitudes :: "string list \<Rightarrow> anchor list \<Rightarrow> nat set \<Rightarrow> row list \<Rightarrow> py_error + row list" where
  "process_altitudes lines [] processed data = Inr data"
| "process_altitudes lines ((line_idx, altitude, initial_values) # rest) processed data =
     (if line_idx \<in> processed then process_altitudes lines rest processed data
      else
        (case scan lines line_idx altitude [1..<15] ([(- 40, initial_values)], processed) of
           Inl e \<Rightarrow> Inl e
         | Inr (td, processed') \<Rightarrow>
             process_altitudes lines rest processed' (data @ emit_altitude altitude td)))"

text \<open>The text of the pages \<open>start_page, ..., end_page\<close>, each followed by a newline.\<close>

fun pages_text :: "document \<Rightarrow> int list \<Rightarrow> py_error + string" where
  "pages_text pages [] = Inr []"
| "pages_text pages (n # ns) =
     (case extract_text_from_page pages n of
        Inl e \<Rightarrow> Inl e
      | Inr t \<Rightarrow>
         (case pages_text pages ns of
            Inl e \<Rightarrow> Inl e
          | Inr ts \<Rightarrow> Inr (t @ [CHR 0x0A] @ ts)))"

text \<open>The parser of a climb table, from the lines of the text.\<close>

definition parse_climb_lines :: "string list \<Rightarrow> py_error + row list" where
  "parse_climb_lines lines =
     (case find_altitudes 0 lines of
        Inl e \<Rightarrow> Inl e
      | Inr altitude_data \<Rightarrow> process_altitudes lines altitude_data {} [header])"

definition parse_climb_gradient_tables :: "document \<Rightarrow> int \<Rightarrow> int \<Rightarrow> py_error + row list" where
  "parse_climb_gradient_tables pages start_page end_page =
     (case pages_text pages [start_page..end_page] of
        Inl e \<Rightarrow> Inl e
      | Inr all_text \<Rightarrow> parse_climb_lines (split_on (CHR 0x0A) (replace_10k all_text)))"

definition parse_climb_rate_tables :: "document \<Rightarrow> int \<Rightarrow> int \<Rightarrow> py_error + row list" where
  "parse_climb_rate_tables pages start_page end_page =
     parse_climb_gradient_tables pages start_page end_page"

section \<open>The G2+ extractor\<close>

text \<open>Here the pages are counted from 0.\<close>

definition g2_extract_text_from_page :: "document \<Rightarrow> int \<Rightarrow> py_error + string" where
  "g2_extract_text_from_page pages page_num =
     (if page_num < int (length pages) then py_index pages page_num else Inr [])"

subsection \<open>Takeoff tables\<close>

definition process_takeoff_values ::
  "row list \<Rightarrow> int \<Rightarrow> string \<Rightarrow> string list \<Rightarrow> py_error + row list" where
  "process_takeoff_values data weight altitude values =
     (case py_int altitude of
        Inl e \<Rightarrow> Inl e
      | Inr alt_int \<Rightarrow>
         (let temps = takeoff_temps;
              temp_row = (\<lambda>j. [Txt (str_int weight), Txt altitude, Txt (str_int (temps ! j)),
                               Txt (values ! j)])
          in if alt_int \<ge> 7000 then
               (let num_temp_values = int (length values) - 1;
                    data1 = data @ map temp_row
                              (filter (\<lambda>j. j < length temps) [0..<nat num_temp_values])
                in if values = [] then Inl IndexError
                   else Inr (data1 @ [[Txt (str_int weight), Txt altitude,
                                       Num (calculate_isa_temp alt_int), Txt (last values)]]))
             else
               (let data1 = data @ map temp_row [0..<min 8 (length values)]
                in Inr (if length values > 8
                        then data1 @ [[Txt (str_int weight), Txt altitude,
                                       Num (calculate_isa_temp alt_int), Txt (values ! 8)]]
                        else data1))))"

text \<open>The pattern \<^verbatim>\<open>^.*?Roll\s*\<close>.\<close>

definition rx_upto_roll :: "rx list" where
  "rx_upto_roll = [Bol, Rep AnyChar 0 None False, Lit ''Roll'', Rep Space 0 None True]"

text \<open>
  The altitude of a total-distance line is looked for on the lines
  \<open>i - 1, i - 2, ...\<close> down to \<open>max(0, i - 5) + 1\<close>.
\<close>

fun total_lookback :: "int \<Rightarrow> string list \<Rightarrow> string list \<Rightarrow> nat list \<Rightarrow> row list \<Rightarrow>
    py_error + row list" where
  "total_lookback weight lines values [] totals = Inr totals"
| "total_lookback weight lines values (j # js) totals =
     (let prev_line = strip (lines ! j) in
      if contains prev_line ''Gnd'' \<and> contains prev_line ''Roll'' then
        (case re_search rx_gnd_roll prev_line of
           None \<Rightarrow> total_lookback weight lines values js totals
         | Some m \<Rightarrow>
            (let altitude = (if group prev_line m 1 = ''SL'' then ''0'' else group prev_line m 1)
             in process_takeoff_values totals weight altitude values))
      else total_lookback weight lines values js totals)"

definition g2_takeoff_line ::
  "int \<Rightarrow> string list \<Rightarrow> row list \<times> row list \<Rightarrow> nat \<Rightarrow> py_error + (row list \<times> row list)" where
  "g2_takeoff_line weight lines st i =
     (let line = strip (lines ! i); grounds = fst st; totals = snd st in
      if contains line ''Gnd'' \<and> contains line ''Roll'' then
        (case re_search rx_gnd_roll line of
           None \<Rightarrow> Inr st
         | Some m \<Rightarrow>
            (let altitude = (if group line m 1 = ''SL'' then ''0'' else group line m 1);
                 values = findall_digits (re_sub_bol rx_upto_roll line)
             in if values \<noteq> [] then
                  (case process_takeoff_values grounds weight altitude values of
                     Inl e \<Rightarrow> Inl e
                   | Inr grounds' \<Rightarrow> Inr (grounds', totals))
                else Inr st))
      else if contains line ''Total'' \<and> \<not> contains line ''Takeoff'' then
        (let values = findall_digits (re_sub_bol rx_upto_total line)
         in if values \<noteq> [] then
              (case total_lookback weight lines values (rev [Suc (i - 5)..<i]) totals of
                 Inl e \<Rightarrow> Inl e
               | Inr totals' \<Rightarrow> Inr (grounds, totals'))
            else Inr st)
      else Inr st)"

fun g2_takeoff_lines ::
  "int \<Rightarrow> string list \<Rightarrow> row list \<times> row list \<Rightarrow> nat list \<Rightarrow> py_error + (row list \<times> row list)" where
  "g2_takeoff_lines weight lines st [] = Inr st"
| "g2_takeoff_lines weight lines st (i # is) =
     (case g2_takeoff_line weight lines st i of
        Inl e \<Rightarrow> Inl e
      | Inr st' \<Rightarrow> g2_takeoff_lines weight lines st' is)"

text \<open>One page of \<open>extract_takeoff_data\<close>, and the pages of the three weights.\<close>

definition g2_takeoff_page ::
  "document \<Rightarrow> int \<Rightarrow> int \<Rightarrow> row list \<times> row list \<Rightarrow> py_error + (row list \<times> row list)" where
  "g2_takeoff_page pages weight page_num st =
     (case g2_extract_text_from_page pages page_num of
        Inl e \<Rightarrow> Inl e
      | Inr text \<Rightarrow>
         (let lines = split_on (CHR 0x0A) (replace_10k text)
          in g2_takeoff_lines weight lines st [0..<length lines]))"

fun g2_takeoff_pages ::
  "document \<Rightarrow> (int \<times> int) list \<Rightarrow> row list \<times> row list \<Rightarrow> py_error + (row list \<times> row list)" where
  "g2_takeoff_pages pages [] st = Inr st"
| "g2_takeoff_pages pages ((weight, page_num) # rest) st =
     (case g2_takeoff_page pages weight page_num st of
        Inl e \<Rightarrow> Inl e
      | Inr st' \<Rightarrow> g2_takeoff_pages pages rest st')"

definition g2_extract_takeoff_data :: "document \<Rightarrow> py_error + (row list \<times> row list)" where
  "g2_extract_takeoff_data pages =
     g2_takeoff_pages pages [(6000, 4), (5500, 6), (5000, 8)] ([header], [header])"

subsection \<open>Climb tables\<close>

definition expected_altitudes :: "string list" where
  "expected_altitudes =
     [''0'', ''1000'', ''2000'', ''3000'', ''4000'', ''5000'', ''6000'', ''7000'', ''8000'',
      ''9000'', ''10000'']"

text \<open>The pattern \<^verbatim>\<open>^(-?\d+)\s+(\d+)\s+(\d+)\s+(\d+)\s+(\d+)\<close>.\<close>

definition rx_temp_row :: "rx list" where
  "rx_temp_row =
     [Bol, Group 1 [Alt [Lit ''-''] [], Rep Digit 1 None True], Rep Space 1 None True,
      Group 2 [Rep Digit 1 None True], Rep Space 1 None True,
      Group 3 [Rep Digit 1 None True], Rep Space 1 None True,
      Group 4 [Rep Digit 1 None True], Rep Space 1 None True,
      Group 5 [Rep Digit 1 None True]]"

text \<open>\<open>for w_idx, weight in enumerate(weights): if w_idx < len(values): data.append(...)\<close>\<close>

definition g2_rows :: "string \<Rightarrow> string \<Rightarrow> string list \<Rightarrow> row list" where
  "g2_rows altitude temp values =
     map (\<lambda>(w_idx, weight). [Txt (str_int weight), Txt altitude, Txt temp, Txt (values ! w_idx)])
       (filter (\<lambda>(w_idx, weight). w_idx < length values) (enumerate 0 climb_weights))"

definition g2_temp_row :: "string \<Rightarrow> string \<Rightarrow> row list" where
  "g2_temp_row altitude line =
     (case re_match rx_temp_row line of
        None \<Rightarrow> []
      | Some m \<Rightarrow>
          g2_rows altitude (group line m 1)
            [group line m 2, group line m 3, group line m 4, group line m 5])"

text \<open>A line of page 9, which holds altitude 0 only.\<close>

definition g2_zero_page_line :: "row list \<Rightarrow> string \<Rightarrow> row list" where
  "g2_zero_page_line data raw =
     (let line = strip raw in
      if startswith line ''0-'' then
        (let parts = split_ws line in
         if length parts \<ge> 5 then data @ g2_rows ''0'' (drop 1 (parts ! 0)) (slice parts 1 5)
         else data)
      else data @ g2_temp_row ''0'' line)"

text \<open>
  The loop over \<open>expected_altitudes\<close> on a line of the pages 10 to 14: the altitude
  found and its records, if any. \<open>parts[0].split('-')[1]\<close> is the temperature.
\<close>

definition marker_rows :: "string \<Rightarrow> string list \<Rightarrow> py_error + (string \<times> row list) option" where
  "marker_rows alt parts =
     (case split_on (CHR ''-'') (parts ! 0) of
        _ # temp # _ \<Rightarrow> Inr (Some (alt, g2_rows alt (''-'' @ temp) (slice parts 1 5)))
      | _ \<Rightarrow> Inl IndexError)"

fun altitude_marker :: "string \<Rightarrow> string list \<Rightarrow> py_error + (string \<times> row list) option" where
  "altitude_marker line [] = Inr None"
| "altitude_marker line (alt # alts) =
     (if startswith line (alt @ ''-'') then
        (let parts = split_ws line in
         if length parts \<ge> 5 then marker_rows alt parts else altitude_marker line alts)
      else if contains line (alt @ ''-'') \<and> contains line ''of'' then
        (let idx = py_find line (alt @ ''-'');
             parts = split_ws (drop (nat idx) line)
         in if length parts \<ge> 5 then marker_rows alt parts else altitude_marker line alts)
      else altitude_marker line alts)"

text \<open>The state of the loop over the lines of a page: \<open>current_altitude\<close> and \<open>data\<close>.\<close>

type_synonym g2_climb_state = "string option \<times> row list"

definition g2_climb_line :: "g2_climb_state \<Rightarrow> string \<Rightarrow> py_error + g2_climb_state" where
  "g2_climb_line st raw =
     (let line = strip raw in
      case altitude_marker line expected_altitudes of
        Inl e \<Rightarrow> Inl e
      | Inr found \<Rightarrow>
         (let current_altitude = (case found of None \<Rightarrow> fst st | Some (alt, rows) \<Rightarrow> Some alt);
              data = (case found of None \<Rightarrow> snd st | Some (alt, rows) \<Rightarrow> snd st @ rows)
          in case current_altitude of
               None \<Rightarrow> Inr (current_altitude, data)
             | Some a \<Rightarrow>
                if a \<noteq> [] \<and>
                   \<not> list_ex (\<lambda>alt. startswith line (alt @ ''-'') \<or> contains line (alt @ ''-''))
                        expected_altitudes
                then Inr (current_altitude, data @ g2_temp_row a line)
                else Inr (current_altitude, data)))"

fun g2_climb_lines :: "g2_climb_state \<Rightarrow> string list \<Rightarrow> py_error + g2_climb_state" where
  "g2_climb_lines st [] = Inr st"
| "g2_climb_lines st (l # ls) =
     (case g2_climb_line st l of
        Inl e \<Rightarrow> Inl e
      | Inr st' \<Rightarrow> g2_climb_lines st' ls)"

text \<open>The pages 10 to 14, each with a fresh \<open>current_altitude\<close>; the loop ends at the
  first page the document does not have.\<close>

fun g2_climb_pages :: "document \<Rightarrow> int list \<Rightarrow> row list \<Rightarrow> py_error + row list" where
  "g2_climb_pages pages [] data = Inr data"
| "g2_climb_pages pages (page_num # rest) data =
     (if page_num \<ge> int (length pages) then Inr data
      else
        (case g2_extract_text_from_page pages page_num of
           Inl e \<Rightarrow> Inl e
         | Inr text \<Rightarrow>
            (case g2_climb_lines (None, data) (split_on (CHR 0x0A) (replace_10k text)) of
               Inl e \<Rightarrow> Inl e
             | Inr st \<Rightarrow> g2_climb_pages pages rest (snd st))))"

definition g2_parse_climb_gradient_tables :: "document \<Rightarrow> py_error + row list" where
  "g2_parse_climb_gradient_tables pages =
     (case (if 9 < int (length pages) then
              (case g2_extract_text_from_page pages 9 of
                 Inl e \<Rightarrow> Inl e
               | Inr text \<Rightarrow>
                   Inr (foldl g2_zero_page_line [header] (split_on (CHR 0x0A) (replace_10k text))))
            else Inr [header]) of
        Inl e \<Rightarrow> Inl e
      | Inr data \<Rightarrow> g2_climb_pages pages [10, 11, 12, 13, 14] data)"

section \<open>Notions of the specification\<close>

text \<open>
  A temperature cell that reads as a negative number: a text that starts with a
  minus sign, or a negative reference-atmosphere temperature.
\<close>

definition negative_temperature :: "cell \<Rightarrow> bool" where
  "negative_temperature c = (case c of Txt s \<Rightarrow> startswith s ''-'' | Num t \<Rightarrow> t < 0)"

text \<open>
  Following the specification's words on the concatenated 0 degree rows: a run stands
  for exactly four values, each 3 or 4 digits wide. \<open>spec_width_patterns\<close> lists every
  such pattern, and a run fits when its length is the sum of one of them.
\<close>

definition spec_width_patterns :: "nat list list" where
  "spec_width_patterns =
     concat (map (\<lambda>a. concat (map (\<lambda>b. concat (map (\<lambda>c. map (\<lambda>d. [a, b, c, d]) [3, 4]) [3, 4])) [3, 4])) [3, 4])"

definition spec_fits_width_pattern :: "string \<Rightarrow> bool" where
  "spec_fits_width_pattern remaining =
     list_ex (\<lambda>ws. sum_list ws = length remaining) spec_width_patterns"

text \<open>
  The key that a record of the G1 climb tables has when it is written for the weight
  at index \<open>i\<close> of \<open>climb_weights\<close>.
\<close>

definition climb_key :: "string \<Rightarrow> int \<Rightarrow> nat \<Rightarrow> cell list" where
  "climb_key altitude temp i = [Txt (str_int (climb_weights ! i)), Txt altitude, Txt (str_int temp)]"

text \<open>
  Following the specification's words on a row of nine tokens: the first eight tokens
  at the temperatures -20 to 50 in ascending order, then one record that carries the
  ninth token at the reference-atmosphere temperature.
\<close>

definition expected_nine_rows :: "int \<Rightarrow> string \<Rightarrow> rat \<Rightarrow> string list \<Rightarrow> row list" where
  "expected_nine_rows weight altitude isa_temp tokens =
     map (\<lambda>(t, v). [Txt (str_int weight), Txt altitude, Txt (str_int t), Txt v])
       (zip [- 20, - 10, 0, 10, 20, 30, 40, 50] (take 8 tokens)) @
     [[Txt (str_int weight), Txt altitude, Num isa_temp, Txt (tokens ! 8)]]"


section \<open>Auxiliary facts\<close>

subsection \<open>Decimal text\<close>

lemma digit_char_is_digit: "d < 10 \<Longrightarrow> is_digit (digit_char d)"
  unfolding digit_char_def is_digit_def by (rule nth_mem) simp

lemma digit_val_digit_char: "d < 10 \<Longrightarrow> digit_val (digit_char d) = d"
proof -
  assume "d < 10"
  then have "d = 0 \<or> d = 1 \<or> d = 2 \<or> d = 3 \<or> d = 4 \<or> d = 5 \<or> d = 6 \<or> d = 7 \<or> d = 8 \<or> d = 9"
    by arith
  then show ?thesis
    by (auto simp: digit_val_def digit_char_def)
qed

lemma str_digits_digits: "str_digits i \<noteq> [] \<and> list_all is_digit (str_digits i)"
proof (induction i rule: str_digits.induct)
  case (1 i)
  show ?case
  proof (cases "i < 10")
    case True
    then show ?thesis by (simp add: str_digits.simps [of i] digit_char_is_digit)
  next
    case False
    with 1 show ?thesis by (simp add: str_digits.simps [of i] digit_char_is_digit)
  qed
qed

lemma int_of_digits_snoc: "int_of_digits (s @ [c]) = 10 * int_of_digits s + int (digit_val c)"
  by (simp add: int_of_digits_def)

lemma int_of_digits_str_digits: "0 \<le> i \<Longrightarrow> int_of_digits (str_digits i) = i"
proof (induction i rule: str_digits.induct)
  case (1 i)
  show ?case
  proof (cases "i < 10")
    case True
    with 1(2) show ?thesis
      by (simp add: str_digits.simps [of i] int_of_digits_def digit_val_digit_char)
  next
    case False
    with 1 have "int_of_digits (str_digits (i div 10)) = i div 10" by simp
    with False 1(2) show ?thesis
      by (simp add: str_digits.simps [of i] int_of_digits_snoc digit_val_digit_char)
  qed
qed

lemma str_digits_inj: "0 \<le> a \<Longrightarrow> 0 \<le> b \<Longrightarrow> str_digits a = str_digits b \<Longrightarrow> a = b"
  by (metis int_of_digits_str_digits)

lemma str_digits_no_minus: "hd (str_digits i) \<noteq> CHR ''-''"
proof -
  from str_digits_digits [of i] obtain c cs where s: "str_digits i = c # cs" and "is_digit c"
    by (cases "str_digits i") auto
  then show ?thesis by (auto simp: is_digit_def)
qed

text \<open>\<open>str\<close> is injective on the integers.\<close>

lemma str_int_inj: "str_int a = str_int b \<Longrightarrow> a = b"
proof -
  assume eq: "str_int a = str_int b"
  have neg: "hd (str_int i) = CHR ''-'' \<longleftrightarrow> i < 0" for i
    using str_digits_no_minus by (simp add: str_int_def)
  from eq have same: "a < 0 \<longleftrightarrow> b < 0" using neg by metis
  show ?thesis
  proof (cases "a < 0")
    case True
    with same eq have "str_digits (- a) = str_digits (- b)" by (simp add: str_int_def)
    with True same have "- a = - b" by (intro str_digits_inj) auto
    then show ?thesis by simp
  next
    case False
    with same eq have "str_digits a = str_digits b" by (simp add: str_int_def)
    with False same show ?thesis by (intro str_digits_inj) auto
  qed
qed

lemma str_int_temps:
  "map str_int [- 40, - 30, - 20, - 10, 0, 10, 20, 30, 40, 50] =
     [''-40'', ''-30'', ''-20'', ''-10'', ''0'', ''10'', ''20'', ''30'', ''40'', ''50'']"
  by code_simp


subsection \<open>Loops over index ranges\<close>

lemma filter_less_upt: "filter (\<lambda>j. j < k) [0..<n] = [0..<min k n]"
  by (induction n) auto

lemma map_upt_zip:
  "map (\<lambda>j. f (ts ! j) (vs ! j)) [0..<min (length ts) (length vs)] = map (\<lambda>(t, v). f t v) (zip ts vs)"
  by (rule nth_equalityI) auto

lemma rows_zip:
  "map (\<lambda>j. f (ts ! j) (vs ! j)) (filter (\<lambda>j. j < length ts) [0..<length vs]) =
   map (\<lambda>(t, v). f t v) (zip ts vs)"
  by (simp only: filter_less_upt map_upt_zip)

lemma map_zip_map1:
  "map (\<lambda>(t, u). f (h t) u) (zip ts vs) = map (\<lambda>(t, u). f t u) (zip (map h ts) vs)"
  by (simp add: zip_map1 case_prod_unfold comp_def)

subsection \<open>The reference atmosphere\<close>




subsection \<open>Lists\<close>

lemma take_drop_app: "take a (drop b xs) @ drop (b + a) xs = drop b xs"
  by (metis append_take_drop_id drop_drop add.commute)


lemma first_eight_rows:
  assumes "length values = 9"
  shows "map (\<lambda>j. f (takeoff_temps ! j) (values ! j)) [0..<8] =
         map (\<lambda>(t, v). f t v) (zip takeoff_temps (take 8 values))"
proof -
  have m: "min (length takeoff_temps) (length (take 8 values)) = 8"
    using assms by (simp add: takeoff_temps_def)
  have a: "map (\<lambda>j. f (takeoff_temps ! j) (take 8 values ! j)) [0..<8] =
           map (\<lambda>(t, v). f t v) (zip takeoff_temps (take 8 values))"
    using map_upt_zip [of f takeoff_temps "take 8 values"] unfolding m .
  have b: "map (\<lambda>j. f (takeoff_temps ! j) (values ! j)) [0..<8] =
           map (\<lambda>j. f (takeoff_temps ! j) (take 8 values ! j)) [0..<8]"
    by (rule map_cong) auto
  from b a show ?thesis by (rule trans)
qed

lemma last_of_nine: "length xs = 9 \<Longrightarrow> last xs = xs ! 8"
proof -
  assume l: "length xs = 9"
  then have "xs \<noteq> []" by auto
  then have "last xs = xs ! (length xs - 1)" by (rule last_conv_nth)
  with l show ?thesis by simp
qed

subsection \<open>The concatenated rows\<close>

lemma filter_digits_zero:
  "startswith line ''0'' \<Longrightarrow> \<exists>r. filter is_digit line = CHR ''0'' # r"
  by (cases line) (auto simp: startswith_def is_digit_def)

lemma partition_digits_length:
  "12 \<le> length r \<Longrightarrow> 3 \<le> length (partition_digits altitude r) \<and> length (partition_digits altitude r) \<le> 4"
  by (auto simp: partition_digits_def)

lemma partition_digits_short: "length r < 12 \<Longrightarrow> partition_digits altitude r = []"
  by (simp add: partition_digits_def)




lemma slice_isdigit:
  "list_all is_digit r \<Longrightarrow> a < length r \<Longrightarrow> a < b \<Longrightarrow> isdigit (slice r a b)"
proof -
  assume d: "list_all is_digit r" and a: "a < length r" and b: "a < b"
  have "set (take (b - a) (drop a r)) \<subseteq> set r"
    by (meson set_take_subset set_drop_subset subset_trans)
  with d have "list_all is_digit (slice r a b)" by (auto simp: slice_def list_all_iff)
  moreover from a b have "slice r a b \<noteq> []" by (simp add: slice_def)
  ultimately show ?thesis by (simp add: isdigit_def)
qed

lemma partition_digits_16:
  "length r = 16 \<Longrightarrow>
   partition_digits altitude r = [take 4 r, take 4 (drop 4 r), take 4 (drop 8 r), take 4 (drop 12 r)]"
  by (simp add: partition_digits_def slice_def)

lemma partition_digits_15:
  "length r = 15 \<Longrightarrow>
   partition_digits altitude r = [take 3 r, take 4 (drop 3 r), take 4 (drop 7 r), take 4 (drop 11 r)]"
  by (simp add: partition_digits_def slice_def)

lemma partition_digits_14:
  "length r = 14 \<Longrightarrow>
   partition_digits altitude r =
     (if altitude = ''10000'' \<and> startswith r ''809''
      then [take 3 r, take 3 (drop 3 r), take 4 (drop 6 r), take 4 (drop 10 r)]
      else [take 3 r, take 4 (drop 3 r), take 4 (drop 7 r), take 3 (drop 11 r)])"
  by (simp add: partition_digits_def slice_def)

lemma partition_digits_12_13:
  "length r = 12 \<or> length r = 13 \<Longrightarrow>
   partition_digits altitude r =
     (if altitude \<in> {''8000'', ''9000'', ''10000''}
      then [take 3 r, take 4 (drop 3 r), take 4 (drop 7 r)]
      else [take 4 r, take 4 (drop 4 r), take 4 (drop 8 r)])"
  by (auto simp: partition_digits_def slice_def)

lemma partition_digits_17:
  "17 \<le> length r \<Longrightarrow>
   partition_digits altitude r =
     (if altitude \<in> {''8000'', ''9000'', ''10000''}
      then [take 3 r, take 4 (drop 3 r), take 4 (drop 7 r), take 4 (drop 11 r)]
      else [take 4 r, take 4 (drop 4 r), take 4 (drop 8 r), take 4 (drop 12 r)])"
  by (auto simp: partition_digits_def slice_def)

lemma partition_digits_cases:
  assumes "12 \<le> length r"
  obtains "length r = 12 \<or> length r = 13" | "length r = 14" | "length r = 15" | "length r = 16"
    | "17 \<le> length r"
  using assms by linarith

lemma take_take_drop: "take a r @ take b (drop a r) = take (a + b) r"
  by (simp add: take_add)

lemma cut_three:
  "take a r @ take b (drop a r) @ take c (drop (a + b) r) = take (a + b + c) r"
  by (simp add: take_add)

lemma cut_four:
  "take a r @ take b (drop a r) @ take c (drop (a + b) r) @ take d (drop (a + b + c) r) =
   take (a + b + c + d) r"
  by (simp add: take_add)

lemma partition_digits_widths:
  assumes "12 \<le> length r"
  shows "list_all (\<lambda>v. length v = 3 \<or> length v = 4) (partition_digits altitude r)"
  using assms
proof (cases rule: partition_digits_cases)
  case 1 then show ?thesis by (auto simp: partition_digits_12_13)
next
  case 2 then show ?thesis by (simp add: partition_digits_14)
next
  case 3 then show ?thesis by (simp add: partition_digits_15)
next
  case 4 then show ?thesis by (simp add: partition_digits_16)
next
  case 5 then show ?thesis by (simp add: partition_digits_17)
qed

lemma partition_digits_prefix:
  assumes "12 \<le> length r"
  shows "concat (partition_digits altitude r) = take (length (concat (partition_digits altitude r))) r"
  using assms
proof (cases rule: partition_digits_cases)
  case 1
  then show ?thesis
    using cut_three [of 3 r 4 4] cut_three [of 4 r 4 4] by (auto simp: partition_digits_12_13)
next
  case 2
  then show ?thesis
    using cut_four [of 3 r 3 4 4] cut_four [of 3 r 4 4 3] by (simp add: partition_digits_14)
next
  case 3
  then show ?thesis using cut_four [of 3 r 4 4 4] by (simp add: partition_digits_15)
next
  case 4
  then show ?thesis using cut_four [of 4 r 4 4 4] by (simp add: partition_digits_16)
next
  case 5
  then show ?thesis
    using cut_four [of 3 r 4 4 4] cut_four [of 4 r 4 4 4] by (simp add: partition_digits_17)
qed


lemma mangled_zero_entered:
  assumes "startswith line ''0''" and "10 < length line"
    and "CHR '' '' \<in> set (slice line 1 5) \<or> \<not> startswith line ''0 ''"
    and "filter is_digit line = CHR ''0'' # r" and "12 \<le> length r"
  shows "mangled_zero altitude line = Some (partition_digits altitude r)"
proof -
  from partition_digits_length [OF assms(5), of altitude]
  have "3 \<le> length (partition_digits altitude r)"
    and "take 4 (partition_digits altitude r) = partition_digits altitude r"
    by simp_all
  with assms show ?thesis by (simp add: mangled_zero_def Let_def)
qed


subsection \<open>The records of one altitude of the climb tables\<close>

lemma scan_keeps_distinct:
  "scan lines line_idx altitude js (td, processed) = Inr (td', processed') \<Longrightarrow>
   distinct (map fst td) \<Longrightarrow> distinct (map fst td')"
proof (induction js arbitrary: td processed)
  case Nil
  then show ?case by simp
next
  case (Cons j js)
  show ?case
  proof (cases "line_idx + j < length lines")
    case False
    with Cons.prems show ?thesis by simp
  next
    case inrange: True
    show ?thesis
    proof (cases "line_idx + j \<in> processed")
      case True
      with inrange Cons show ?thesis by simp
    next
      case False
      show ?thesis
      proof (cases "scan_line altitude (strip (lines ! (line_idx + j)))")
        case (Inl e)
        with inrange False Cons.prems show ?thesis by simp
      next
        case (Inr out)
        show ?thesis
        proof (cases out)
          case (Stored temp vs)
          with Inr inrange False Cons.prems
          have "scan lines line_idx altitude js
                  (AList.update temp vs td, insert (line_idx + j) processed) = Inr (td', processed')"
            by simp
          moreover have "distinct (map fst (AList.update temp vs td))"
            using Cons.prems(2) by (rule distinct_update)
          ultimately show ?thesis by (rule Cons.IH)
        next
          case Passed
          with Inr inrange False Cons show ?thesis by simp
        next
          case Stop
          with Inr inrange False Cons.prems show ?thesis by simp
        qed
      qed
    qed
  qed
qed

lemma climb_weights_distinct: "distinct climb_weights" "length climb_weights = 4"
  by (simp_all add: climb_weights_def)

lemma climb_key_inj:
  "i < 4 \<Longrightarrow> j < 4 \<Longrightarrow> climb_key altitude temp i = climb_key altitude temp' j \<Longrightarrow> i = j \<and> temp = temp'"
proof -
  assume i: "i < 4" and j: "j < 4" and eq: "climb_key altitude temp i = climb_key altitude temp' j"
  then have "str_int (climb_weights ! i) = str_int (climb_weights ! j)" and t: "str_int temp = str_int temp'"
    by (simp_all add: climb_key_def)
  then have "climb_weights ! i = climb_weights ! j" by (simp add: str_int_inj)
  with i j have "i = j"
    using climb_weights_distinct by (simp add: nth_eq_iff_index_eq)
  with t show ?thesis by (simp add: str_int_inj)
qed

lemma emit_rows_shape:
  "emit_rows altitude temp values =
     map (\<lambda>(i, v). [Txt (str_int (climb_weights ! ((if length values < 4 then 4 - length values else 0) + i))),
                      Txt altitude, Txt (str_int temp), Txt v])
       (filter (\<lambda>(i, v). (if length values < 4 then 4 - length values else 0) + i < 4 \<and> isdigit v)
          (enumerate 0 values))"
proof (cases "length values < 4")
  case True
  then have "filter (\<lambda>(i, v). 4 - length values + i < 4 \<and> isdigit v) (enumerate 0 values) =
             filter (\<lambda>(i, v). isdigit v) (enumerate 0 values)"
    by (intro filter_cong) (auto simp: in_set_enumerate_eq)
  with True show ?thesis
    by (simp add: emit_rows_def climb_weights_distinct Let_def)
next
  case False
  then show ?thesis
    by (simp add: emit_rows_def climb_weights_distinct)
qed

lemma emit_rows_keys:
  "map key_of (emit_rows altitude temp values) =
     map (\<lambda>(i, v). climb_key altitude temp ((if length values < 4 then 4 - length values else 0) + i))
       (filter (\<lambda>(i, v). (if length values < 4 then 4 - length values else 0) + i < 4 \<and> isdigit v)
          (enumerate 0 values))"
  unfolding emit_rows_shape
  by (simp add: key_of_def climb_key_def case_prod_unfold comp_def)

lemma emit_rows_key_set:
  "k \<in> set (map key_of (emit_rows altitude temp values)) \<Longrightarrow> \<exists>i < 4. k = climb_key altitude temp i"
  unfolding emit_rows_keys by auto

lemma emit_rows_distinct: "distinct (map key_of (emit_rows altitude temp values))"
  unfolding emit_rows_keys
proof (rule iffD2 [OF distinct_map], intro conjI)
  let ?off = "if length values < 4 then 4 - length values else 0"
  let ?xs = "filter (\<lambda>(i, v). ?off + i < 4 \<and> isdigit v) (enumerate 0 values)"
  show "distinct ?xs" by (simp add: distinct_enumerate)
  show "inj_on (\<lambda>(i, v). climb_key altitude temp (?off + i)) (set ?xs)"
  proof (rule inj_onI)
    fix p q
    assume p: "p \<in> set ?xs" and q: "q \<in> set ?xs"
      and eq: "(case p of (i, v) \<Rightarrow> climb_key altitude temp (?off + i)) =
               (case q of (i, v) \<Rightarrow> climb_key altitude temp (?off + i))"
    from p have p1: "?off + fst p < 4" and p2: "snd p = values ! fst p"
      by (auto simp: in_set_enumerate_eq)
    from q have q1: "?off + fst q < 4" and q2: "snd q = values ! fst q"
      by (auto simp: in_set_enumerate_eq)
    from eq have "climb_key altitude temp (?off + fst p) = climb_key altitude temp (?off + fst q)"
      by (simp add: case_prod_unfold)
    with p1 q1 have "?off + fst p = ?off + fst q" using climb_key_inj by blast
    then have "fst p = fst q" by simp
    with p2 q2 show "p = q" by (simp add: prod_eq_iff)
  qed
qed

lemma emit_blocks_distinct:
  "distinct (map fst td) \<Longrightarrow>
   distinct (map key_of (concat (map (\<lambda>(temp, values). emit_rows altitude temp values) td)))"
proof (induction td)
  case Nil
  then show ?case by simp
next
  case (Cons p td)
  obtain temp vs where p: "p = (temp, vs)" by (cases p)
  from Cons.prems p have notin: "temp \<notin> fst ` set td" and d: "distinct (map fst td)" by auto
  have disj: "set (map key_of (emit_rows altitude temp vs)) \<inter>
              set (map key_of (concat (map (\<lambda>(temp, values). emit_rows altitude temp values) td))) = {}"
  proof (rule ccontr)
    assume "\<not> ?thesis"
    then obtain k where k1: "k \<in> set (map key_of (emit_rows altitude temp vs))"
      and k2: "k \<in> set (map key_of (concat (map (\<lambda>(temp, values). emit_rows altitude temp values) td)))"
      by blast
    from k1 obtain i where i: "i < 4" "k = climb_key altitude temp i"
      using emit_rows_key_set by blast
    from k2 obtain temp' vs' where in_td: "(temp', vs') \<in> set td"
      and "k \<in> set (map key_of (emit_rows altitude temp' vs'))"
      by auto
    then obtain j where j: "j < 4" "k = climb_key altitude temp' j"
      using emit_rows_key_set by blast
    from i j have "temp = temp'" using climb_key_inj by metis
    with in_td notin show False by force
  qed
  from Cons.IH [OF d] disj emit_rows_distinct [of altitude temp vs] p show ?case
    by simp
qed

lemma sort_key_keeps_distinct:
  "distinct (map fst td) \<Longrightarrow> distinct (map fst (sort_key fst td))"
proof -
  assume d: "distinct (map fst td)"
  then have "distinct td" and "inj_on fst (set td)" by (simp_all add: distinct_map)
  then have "distinct (sort_key fst td)" and "inj_on fst (set (sort_key fst td))" by simp_all
  then show ?thesis by (simp add: distinct_map)
qed

lemma emit_altitude_distinct:
  "distinct (map fst td) \<Longrightarrow> distinct (map key_of (emit_altitude altitude td))"
  unfolding emit_altitude_def
  by (rule emit_blocks_distinct) (rule sort_key_keeps_distinct)

subsection \<open>Rows with fewer values than weights\<close>
















subsection \<open>The matcher on the row pattern\<close>

lemma rep_ends_sound:
  "(n, p', r') \<in> set (rep_ends k hi n0 p r) \<Longrightarrow>
   \<exists>m\<le>length r. n = n0 + m \<and> p' = p + m \<and> r' = drop m r \<and> list_all (in_class k) (take m r)"
proof (induction r arbitrary: n0 p)
  case Nil
  then show ?case by auto
next
  case (Cons x xs)
  from Cons.prems consider "(n, p', r') = (n0, p, x # xs)"
    | "in_class k x" "(n, p', r') \<in> set (rep_ends k hi (Suc n0) (Suc p) xs)"
    by (auto split: if_splits)
  then show ?case
  proof cases
    case 1
    then show ?thesis by (intro exI [of _ 0]) simp
  next
    case 2
    from Cons.IH [OF 2(2)] obtain m where
      "m \<le> length xs" "n = Suc n0 + m" "p' = Suc p + m" "r' = drop m xs"
      "list_all (in_class k) (take m xs)"
      by blast
    with 2(1) show ?thesis by (intro exI [of _ "Suc m"]) simp
  qed
qed

lemma ms_Rep_sound:
  "(p', r', c') \<in> set (ms (Rep k lo hi g) (p, r, c)) \<Longrightarrow>
   c' = c \<and> (\<exists>m\<ge>lo. m \<le> length r \<and> p' = p + m \<and> r' = drop m r \<and>
      list_all (in_class k) (take m r))"
proof -
  assume "(p', r', c') \<in> set (ms (Rep k lo hi g) (p, r, c))"
  then obtain n where c: "c' = c" and n: "lo \<le> n" "(n, p', r') \<in> set (rep_ends k hi 0 p r)"
    by (auto simp: Let_def split: if_splits)
  from rep_ends_sound [OF n(2)] n(1) c show ?thesis by auto
qed

lemma ms_Lit_sound:
  "(p', r', c') \<in> set (ms (Lit s) (p, r, c)) \<Longrightarrow>
   c' = c \<and> p' = p + length s \<and> r' = drop (length s) r \<and> take (length s) r = s"
  by (auto simp: startswith_def split: if_splits)

lemma mseq_Cons_iff:
  "m \<in> set (mseq (x # xs) st) \<longleftrightarrow> (\<exists>st' \<in> set (ms x st). m \<in> set (mseq xs st'))"
  by auto

lemma mseq_single: "set (mseq [x] st) = set (ms x st)"
  by simp

lemma ms_Alt_set: "set (ms (Alt a b) st) = set (mseq a st) \<union> set (mseq b st)"
  by simp

text \<open>The part of the row pattern after the altitude leaves the capture alone.\<close>

lemma gnd_roll_tail_caps:
  "(p', r', c') \<in> set (mseq [Rep Space 0 None True, Lit ''Gnd'', Rep Space 0 None True, Lit ''Roll''] (p, r, c))
   \<Longrightarrow> c' = c"
proof -
  assume a: "(p', r', c') \<in> set (mseq [Rep Space 0 None True, Lit ''Gnd'', Rep Space 0 None True, Lit ''Roll''] (p, r, c))"
  then obtain s1 where s1: "s1 \<in> set (ms (Rep Space 0 None True) (p, r, c))"
    and a1: "(p', r', c') \<in> set (mseq [Lit ''Gnd'', Rep Space 0 None True, Lit ''Roll''] s1)"
    unfolding mseq_Cons_iff by blast
  obtain p1 r1 c1 where e1: "s1 = (p1, r1, c1)" by (cases s1)
  with s1 have c1: "c1 = c" using ms_Rep_sound by blast
  from a1 obtain s2 where s2: "s2 \<in> set (ms (Lit ''Gnd'') s1)"
    and a2: "(p', r', c') \<in> set (mseq [Rep Space 0 None True, Lit ''Roll''] s2)"
    unfolding mseq_Cons_iff by blast
  obtain p2 r2 c2 where e2: "s2 = (p2, r2, c2)" by (cases s2)
  with s2 e1 have c2: "c2 = c1" using ms_Lit_sound by blast
  from a2 obtain s3 where s3: "s3 \<in> set (ms (Rep Space 0 None True) s2)"
    and a3: "(p', r', c') \<in> set (mseq [Lit ''Roll''] s3)"
    unfolding mseq_Cons_iff by blast
  obtain p3 r3 c3 where e3: "s3 = (p3, r3, c3)" by (cases s3)
  with s3 e2 have c3: "c3 = c2" using ms_Rep_sound by blast
  from a3 have "(p', r', c') \<in> set (ms (Lit ''Roll'') s3)"
    unfolding mseq_Cons_iff by simp
  with e3 have "c' = c3" using ms_Lit_sound by blast
  with c1 c2 c3 show ?thesis by simp
qed

lemma gnd_roll_match_caps:
  assumes "(p', r', c') \<in> set (mseq rx_gnd_roll (p, r, []))"
  shows "\<exists>n. c' = [(1, p, p + n)] \<and>
           (take n r = ''SL'' \<or> (1 \<le> n \<and> n \<le> length r \<and> list_all is_digit (take n r)))"
proof -
  from assms obtain s1 where
    s1: "s1 \<in> set (ms (Group 1 [Alt [Lit ''SL''] [Rep Digit 1 None True]]) (p, r, []))"
    and tail: "(p', r', c') \<in> set (mseq [Rep Space 0 None True, Lit ''Gnd'', Rep Space 0 None True, Lit ''Roll''] s1)"
    unfolding rx_gnd_roll_def mseq_Cons_iff by blast
  obtain p1 r1 c1 where e1: "s1 = (p1, r1, c1)" by (cases s1)
  from tail e1 have c': "c' = c1" using gnd_roll_tail_caps by blast
  from s1 e1 obtain c0 where c1: "c1 = (1, p, p1) # c0"
    and body: "(p1, r1, c0) \<in> set (mseq [Alt [Lit ''SL''] [Rep Digit 1 None True]] (p, r, []))"
    by (auto simp del: mseq.simps)
  from body have "(p1, r1, c0) \<in> set (ms (Lit ''SL'') (p, r, [])) \<or>
                  (p1, r1, c0) \<in> set (ms (Rep Digit 1 None True) (p, r, []))"
    by (simp only: mseq_single ms_Alt_set Un_iff)
  then show ?thesis
  proof
    assume "(p1, r1, c0) \<in> set (ms (Lit ''SL'') (p, r, []))"
    from ms_Lit_sound [OF this] c' c1 show ?thesis
      by (intro exI [of _ 2]) (simp add: numeral_2_eq_2)
  next
    assume "(p1, r1, c0) \<in> set (ms (Rep Digit 1 None True) (p, r, []))"
    from ms_Rep_sound [OF this] obtain m where
      m: "c0 = []" "1 \<le> m" "m \<le> length r" "p1 = p + m" "r1 = drop m r"
         "list_all (in_class Digit) (take m r)"
      by blast
    then have "list_all is_digit (take m r)" by (simp add: list_all_iff)
    with m c' c1 show ?thesis by (intro exI [of _ m]) simp
  qed
qed

lemma search_at_sound:
  "search_at re p r = Some m \<Longrightarrow> \<exists>q\<le>length r. m \<in> set (mseq re (p + q, drop q r, []))"
proof (induction r arbitrary: p)
  case Nil
  then show ?case by (cases "mseq re (p, [], [])") auto
next
  case (Cons x xs)
  show ?case
  proof (cases "mseq re (p, x # xs, [])")
    case Nil
    with Cons.prems have "search_at re (Suc p) xs = Some m" by simp
    from Cons.IH [OF this] obtain q where "q \<le> length xs" "m \<in> set (mseq re (Suc p + q, drop q xs, []))"
      by blast
    then show ?thesis by (intro exI [of _ "Suc q"]) simp
  next
    case (Cons m' ms')
    with Cons.prems have "m = m'" by simp
    with Cons show ?thesis by (intro exI [of _ 0]) simp
  qed
qed

lemma gnd_roll_group:
  assumes "re_search rx_gnd_roll line = Some m"
  shows "group line m 1 = ''SL'' \<or> isdigit (group line m 1)"
proof -
  from assms obtain q where q: "q \<le> length line" "m \<in> set (mseq rx_gnd_roll (0 + q, drop q line, []))"
    unfolding re_search_def using search_at_sound by blast
  obtain p' r' c' where m: "m = (p', r', c')" by (cases m)
  with q gnd_roll_match_caps [of p' r' c' "0 + q" "drop q line"] obtain n where
    n: "c' = [(1, 0 + q, 0 + q + n)]"
       "take n (drop q line) = ''SL'' \<or>
        (1 \<le> n \<and> n \<le> length (drop q line) \<and> list_all is_digit (take n (drop q line)))"
    by blast
  from m n(1) have g: "group line m 1 = take n (drop q line)" by (simp add: group_def)
  from n(2) show ?thesis
  proof
    assume "take n (drop q line) = ''SL''"
    with g show ?thesis by simp
  next
    assume a: "1 \<le> n \<and> n \<le> length (drop q line) \<and> list_all is_digit (take n (drop q line))"
    then have "take n (drop q line) \<noteq> []" by auto
    with a g show ?thesis by (simp add: isdigit_def)
  qed
qed

lemma digit_not_space: "is_digit c \<Longrightarrow> \<not> is_space c"
  by (auto simp: is_digit_def is_space_def)

lemma digits_us_digits: "list_all is_digit s \<Longrightarrow> digits_us b s = (s \<noteq> [] \<or> b)"
  by (induction s arbitrary: b) auto

lemma strip_digits: "isdigit s \<Longrightarrow> strip s = s"
proof -
  assume a: "isdigit s"
  then obtain c cs where s: "s = c # cs" and c: "is_digit c"
    by (cases s) (auto simp: isdigit_def)
  from a have "is_digit (last s)" and ne: "s \<noteq> []"
    by (auto simp: isdigit_def list_all_iff)
  then have "is_digit (hd (rev s))" by (simp add: hd_rev)
  with ne have r: "dropWhile is_space (rev s) = rev s"
    by (cases "rev s") (auto simp: digit_not_space)
  from s c have "dropWhile is_space s = s" by (simp add: digit_not_space)
  with r show ?thesis by (simp add: strip_def)
qed

text \<open>\<open>int\<close> accepts every run of digits.\<close>

lemma py_int_digits: "isdigit s \<Longrightarrow> \<exists>a. py_int s = Inr a"
proof -
  assume a: "isdigit s"
  then obtain c cs where s: "s = c # cs" and c: "is_digit c"
    by (cases s) (auto simp: isdigit_def)
  from c have "c \<noteq> CHR ''-''" "c \<noteq> CHR ''+''" by (auto simp: is_digit_def)
  with s have ns: "\<not> startswith s ''-''" "\<not> startswith s ''+''" by (simp_all add: startswith_def)
  from a have "digits_us False s" by (simp add: isdigit_def digits_us_digits)
  with ns strip_digits [OF a] show ?thesis by (simp add: py_int_def Let_def)
qed

lemma gnd_roll_altitude:
  assumes "re_search rx_gnd_roll line = Some m"
  shows "\<exists>a. py_int (if group line m 1 = ''SL'' then ''0'' else group line m 1) = Inr a"
proof (cases "group line m 1 = ''SL''")
  case True
  have "py_int ''0'' = Inr 0" by code_simp
  with True show ?thesis by simp
next
  case False
  with gnd_roll_group [OF assms] have "isdigit (group line m 1)" by simp
  from py_int_digits [OF this] False show ?thesis by simp
qed

subsection \<open>Rows of nine tokens\<close>

lemma add_performance_values_nine:
  assumes l: "length vs = 9" and p: "py_int altitude = Inr a"
  shows "add_performance_values data weight altitude vs takeoff_temps =
           Inr (data @ expected_nine_rows weight altitude (calculate_isa_temp a) vs)"
proof -
  let ?row = "\<lambda>t v. [Txt (str_int weight), Txt altitude, Txt (str_int t), Txt v]"
  have f: "filter (\<lambda>j. j < length takeoff_temps \<and> j < length vs) [0..<8] = [0..<8]"
    using l by (simp add: takeoff_temps_def filter_id_conv)
  have la: "last vs = vs ! 8" using l by (rule last_of_nine)
  have t: "takeoff_temps = [- 20, - 10, 0, 10, 20, 30, 40, 50]" by (simp add: takeoff_temps_def)
  show ?thesis
    using l p f la first_eight_rows [OF l, of ?row]
    by (simp add: add_performance_values_def expected_nine_rows_def Let_def t [symmetric] del: upt_Suc)
qed

lemma process_takeoff_values_nine:
  assumes l: "length vs = 9" and p: "py_int altitude = Inr a"
  shows "process_takeoff_values data weight altitude vs =
           Inr (data @ expected_nine_rows weight altitude (calculate_isa_temp a) vs)"
proof -
  let ?row = "\<lambda>t v. [Txt (str_int weight), Txt altitude, Txt (str_int t), Txt v]"
  have f: "filter (\<lambda>j. j < length takeoff_temps) [0..<8] = [0..<8]"
    by (simp add: takeoff_temps_def filter_id_conv)
  have la: "last vs = vs ! 8" using l by (rule last_of_nine)
  have ne: "vs \<noteq> []" using l by auto
  have t: "takeoff_temps = [- 20, - 10, 0, 10, 20, 30, 40, 50]" by (simp add: takeoff_temps_def)
  show ?thesis
    using l p f la ne first_eight_rows [OF l, of ?row]
    by (simp add: process_takeoff_values_def expected_nine_rows_def Let_def t [symmetric] del: upt_Suc)
qed

lemma takeoff_line_nine:
  assumes c: "contains (strip raw) ''Gnd Roll''"
    and m: "re_search rx_gnd_roll (strip raw) = Some m"
    and v: "findall_digits (re_sub_bol rx_upto_gnd_roll (strip raw)) = vs"
    and l: "length vs = 9"
  shows "\<exists>alt a. py_int alt = Inr a \<and>
           takeoff_line weight (cur, grounds, totals) raw =
             Inr (Some alt, grounds @ expected_nine_rows weight alt (calculate_isa_temp a) vs, totals)"
proof -
  let ?line = "strip raw"
  let ?a0 = "if group ?line m 1 = ''SL'' then ''0'' else group ?line m 1"
  let ?alt = "if ?a0 = ''000'' then ''10000'' else ?a0"
  have "\<exists>a. py_int ?alt = Inr a"
  proof (cases "?a0 = ''000''")
    case True
    have "py_int ''10000'' = Inr 10000" by code_simp
    with True show ?thesis by simp
  next
    case False
    with gnd_roll_altitude [OF m] show ?thesis by simp
  qed
  then obtain a where a: "py_int ?alt = Inr a" by blast
  from l have ne: "vs \<noteq> []" by auto
  have eq: "takeoff_line weight (cur, grounds, totals) raw =
          (case add_performance_values grounds weight ?alt vs takeoff_temps of
             Inl e \<Rightarrow> Inl e
           | Inr grounds' \<Rightarrow> Inr (Some ?alt, grounds', totals))"
    using c m v ne by (simp add: takeoff_line_def Let_def)
  have "takeoff_line weight (cur, grounds, totals) raw =
          Inr (Some ?alt, grounds @ expected_nine_rows weight ?alt (calculate_isa_temp a) vs, totals)"
    by (simp only: eq add_performance_values_nine [OF l a] sum.case)
  with a show ?thesis by blast
qed

lemma g2_takeoff_line_nine:
  assumes c: "contains (strip (lines ! i)) ''Gnd''" "contains (strip (lines ! i)) ''Roll''"
    and m: "re_search rx_gnd_roll (strip (lines ! i)) = Some m"
    and v: "findall_digits (re_sub_bol rx_upto_roll (strip (lines ! i))) = vs"
    and l: "length vs = 9"
  shows "\<exists>alt a. py_int alt = Inr a \<and>
           g2_takeoff_line weight lines (grounds, totals) i =
             Inr (grounds @ expected_nine_rows weight alt (calculate_isa_temp a) vs, totals)"
proof -
  let ?line = "strip (lines ! i)"
  let ?alt = "if group ?line m 1 = ''SL'' then ''0'' else group ?line m 1"
  from gnd_roll_altitude [OF m] obtain a where a: "py_int ?alt = Inr a" by blast
  from l have ne: "vs \<noteq> []" by auto
  have eq: "g2_takeoff_line weight lines (grounds, totals) i =
          (case process_takeoff_values grounds weight ?alt vs of
             Inl e \<Rightarrow> Inl e
           | Inr grounds' \<Rightarrow> Inr (grounds', totals))"
    using c m v ne by (simp add: g2_takeoff_line_def Let_def)
  have "g2_takeoff_line weight lines (grounds, totals) i =
          Inr (grounds @ expected_nine_rows weight ?alt (calculate_isa_temp a) vs, totals)"
    by (simp only: eq process_takeoff_values_nine [OF l a] sum.case)
  with a show ?thesis by blast
qed

section \<open>The reference-atmosphere resolver\<close>




section \<open>Page text of the G1 extractor\<close>

text \<open>
  Claim C10, as the code has it. For a document of \<open>n\<close> pages, \<open>extract_text_from_page\<close>
  returns the empty string when \<open>page_num > n\<close>, the text of page \<open>page_num\<close> when
  \<open>1 \<le> page_num \<le> n\<close>, the text of the page counted from the end when
  \<open>-n < page_num \<le> 0\<close> (so \<open>page_num = 0\<close> gives the last page), and raises
  \<open>IndexError\<close> when \<open>page_num \<le> -n\<close>.
\<close>

theorem extract_text_from_page_cases:
  "extract_text_from_page pages page_num =
     (if int (length pages) < page_num then Inr []
      else if page_num \<le> - int (length pages) then Inl IndexError
      else if page_num \<le> 0 then Inr (pages ! nat (int (length pages) + (page_num - 1)))
      else Inr (pages ! nat (page_num - 1)))"
  by (auto simp: extract_text_from_page_def py_index_def)

text \<open>On a document of three pages: page 0 is the last page, as page 3 is.\<close>

theorem extract_text_from_page_cases_witness:
  "extract_text_from_page [''a'', ''b'', ''c''] 0 = Inr ''c'' \<and>
   extract_text_from_page [''a'', ''b'', ''c''] 3 = Inr ''c'' \<and>
   extract_text_from_page [''a'', ''b'', ''c''] (- 2) = Inr ''a'' \<and>
   extract_text_from_page [''a'', ''b'', ''c''] 4 = Inr []"
  using extract_text_from_page_cases [of "[''a'', ''b'', ''c'']" 0]
    extract_text_from_page_cases [of "[''a'', ''b'', ''c'']" 3]
    extract_text_from_page_cases [of "[''a'', ''b'', ''c'']" "- 2"]
    extract_text_from_page_cases [of "[''a'', ''b'', ''c'']" 4]
  by simp

text \<open>
  A page number below the page count that is not accepted: on three pages,
  \<open>page_num = -3\<close> raises \<open>IndexError\<close>.
\<close>

theorem extract_text_from_page_counterexample:
  "- 3 \<le> int (length [''a'', ''b'', ''c'']) \<and>
   extract_text_from_page [''a'', ''b'', ''c''] (- 3) = Inl IndexError"
  by (simp add: extract_text_from_page_def py_index_def)

section \<open>Climb rate and climb gradient in the G1 extractor\<close>

text \<open>
  Claim C9. \<open>parse_climb_rate_tables\<close> returns what \<open>parse_climb_gradient_tables\<close>
  returns, for every document and every page range.
\<close>

theorem climb_rate_is_gradient:
  "parse_climb_rate_tables pages start_page end_page =
   parse_climb_gradient_tables pages start_page end_page"
  by (simp add: parse_climb_rate_tables_def)

text \<open>On a document whose only page holds one altitude line.\<close>

theorem climb_rate_is_gradient_witness:
  "parse_climb_rate_tables [''1000-40 1232 1301 1378 1455''] 1 1 =
     Inr [header,
          [Txt ''6000'', Txt ''1000'', Txt ''-40'', Txt ''1232''],
          [Txt ''5500'', Txt ''1000'', Txt ''-40'', Txt ''1301''],
          [Txt ''5000'', Txt ''1000'', Txt ''-40'', Txt ''1378''],
          [Txt ''4500'', Txt ''1000'', Txt ''-40'', Txt ''1455'']]"
proof -
  have "parse_climb_gradient_tables [''1000-40 1232 1301 1378 1455''] 1 1 =
     Inr [header,
          [Txt ''6000'', Txt ''1000'', Txt ''-40'', Txt ''1232''],
          [Txt ''5500'', Txt ''1000'', Txt ''-40'', Txt ''1301''],
          [Txt ''5000'', Txt ''1000'', Txt ''-40'', Txt ''1378''],
          [Txt ''4500'', Txt ''1000'', Txt ''-40'', Txt ''1455'']]"
    by code_simp
  then show ?thesis
    by (rule trans [OF climb_rate_is_gradient])
qed

section \<open>The landing tables of the 50 ice configuration\<close>

text \<open>
  Claim C7, as the code has it. For the 50 ice configuration the landing assembler
  gives the first four values of a row to the temperatures -20, -10, 0 and 10, in
  this order, and adds nothing else: no record has another temperature, and no
  record carries a reference-atmosphere temperature.
\<close>

theorem ice_landing_records:
  "add_landing_values data weight altitude values ''50 ice'' =
     (case py_int altitude of
        Inl e \<Rightarrow> Inl e
      | Inr a \<Rightarrow>
          Inr (data @ map (\<lambda>(t, v). [Txt (str_int weight), Txt altitude, Txt t, Txt v])
                        (zip [''-20'', ''-10'', ''0'', ''10''] values)))"
proof (cases "py_int altitude")
  case (Inl e)
  then show ?thesis by (simp add: add_landing_values_def)
next
  case (Inr a)
  show ?thesis
  proof (cases "values")
    case Nil
    with Inr show ?thesis by (simp add: add_landing_values_def)
  next
    case (Cons v vs)
    let ?g = "\<lambda>t u. [Txt (str_int weight), Txt altitude, Txt (str_int t), Txt u]"
    have "map (\<lambda>i. ?g ([- 10, 0, 10] ! i) ((v # vs) ! (i + 1)))
            (filter (\<lambda>i. i < length [- 10, 0, 10 :: int]) [0..<length vs]) =
          map (\<lambda>(t, u). ?g t u) (zip [- 10, 0, 10] vs)"
      using rows_zip [of ?g "[- 10, 0, 10]" vs] by simp
    also have "\<dots> = map (\<lambda>(t, u). [Txt (str_int weight), Txt altitude, Txt t, Txt u])
                       (zip (map str_int [- 10, 0, 10]) vs)"
      by (rule map_zip_map1)
    also have "map str_int [- 10, 0, 10] = [''-10'', ''0'', ''10'']"
      using str_int_temps by simp
    finally have rows: "map (\<lambda>i. ?g ([- 10, 0, 10] ! i) ((v # vs) ! (i + 1)))
            (filter (\<lambda>i. i < length [- 10, 0, 10 :: int]) [0..<length vs]) =
          map (\<lambda>(t, u). [Txt (str_int weight), Txt altitude, Txt t, Txt u])
            (zip [''-10'', ''0'', ''10''] vs)" .
    show ?thesis
    proof (cases vs)
      case Nil
      with Cons Inr show ?thesis by (simp add: add_landing_values_def)
    next
      case (Cons u us)
      with \<open>values = v # vs\<close> Inr rows show ?thesis
        by (simp add: add_landing_values_def Let_def del: upt_Suc)
    qed
  qed
qed

text \<open>A row of five values at 1000 ft: four records, the fifth value is not used.\<close>

theorem ice_landing_records_witness:
  "add_landing_values [] 5550 ''1000'' [''2100'', ''2200'', ''2300'', ''2400'', ''2500''] ''50 ice'' =
     Inr [[Txt ''5550'', Txt ''1000'', Txt ''-20'', Txt ''2100''],
          [Txt ''5550'', Txt ''1000'', Txt ''-10'', Txt ''2200''],
          [Txt ''5550'', Txt ''1000'', Txt ''0'', Txt ''2300''],
          [Txt ''5550'', Txt ''1000'', Txt ''10'', Txt ''2400'']]"
proof -
  have a: "py_int ''1000'' = Inr 1000" by code_simp
  have w: "str_int 5550 = ''5550''" by code_simp
  show ?thesis
    using ice_landing_records [of "[]" 5550 "''1000''" "[''2100'', ''2200'', ''2300'', ''2400'', ''2500'']"]
    by (simp add: a w)
qed

text \<open>
  A record of the 50 ice configuration whose temperature is not negative: the third
  value of a row is recorded at 0 degrees.
\<close>

theorem ice_landing_counterexample:
  "add_landing_values [] 5550 ''1000'' [''2100'', ''2200'', ''2300''] ''50 ice'' =
     Inr [[Txt ''5550'', Txt ''1000'', Txt ''-20'', Txt ''2100''],
          [Txt ''5550'', Txt ''1000'', Txt ''-10'', Txt ''2200''],
          [Txt ''5550'', Txt ''1000'', Txt ''0'', Txt ''2300'']] \<and>
   \<not> negative_temperature (Txt ''0'')"
  by code_simp

section \<open>Takeoff rows of nine tokens\<close>

text \<open>
  Claim C4. When a takeoff ground-run row yields exactly 9 numeric tokens, both
  extractors give the first 8 tokens to the temperatures -20, -10, 0, 10, 20, 30, 40, 50
  in this order and add exactly one more record, which carries the 9th token at the
  standard-atmosphere temperature of the row's altitude. This holds for the value
  assemblers at every altitude text that \<open>int\<close> accepts, and for every line that the
  row pattern matches, whose altitude \<open>int\<close> always accepts. The row
  \<open>SLGnd Roll 550 600 650 700 750 800 850 900 910\<close> for weight 6000 gives the 8
  records at altitude 0 and the record of value 910 at temperature 15.0.
\<close>

theorem nine_tokens_takeoff_rows:
  "(length vs = 9 \<and> py_int altitude = Inr a \<longrightarrow>
      add_performance_values data weight altitude vs takeoff_temps =
        Inr (data @ expected_nine_rows weight altitude (calculate_isa_temp a) vs) \<and>
      process_takeoff_values data weight altitude vs =
        Inr (data @ expected_nine_rows weight altitude (calculate_isa_temp a) vs)) \<and>
   (contains (strip raw) ''Gnd Roll'' \<and> re_search rx_gnd_roll (strip raw) = Some m \<and>
    findall_digits (re_sub_bol rx_upto_gnd_roll (strip raw)) = vs \<and> length vs = 9 \<longrightarrow>
      (\<exists>alt b. py_int alt = Inr b \<and>
         takeoff_line weight (cur, grounds, totals) raw =
           Inr (Some alt, grounds @ expected_nine_rows weight alt (calculate_isa_temp b) vs, totals))) \<and>
   (contains (strip (lines ! i)) ''Gnd'' \<and> contains (strip (lines ! i)) ''Roll'' \<and>
    re_search rx_gnd_roll (strip (lines ! i)) = Some m' \<and>
    findall_digits (re_sub_bol rx_upto_roll (strip (lines ! i))) = vs \<and> length vs = 9 \<longrightarrow>
      (\<exists>alt b. py_int alt = Inr b \<and>
         g2_takeoff_line weight lines (grounds, totals) i =
           Inr (grounds @ expected_nine_rows weight alt (calculate_isa_temp b) vs, totals))) \<and>
   takeoff_line 6000 (None, [], []) ''SLGnd Roll 550 600 650 700 750 800 850 900 910'' =
     Inr (Some ''0'',
          [[Txt ''6000'', Txt ''0'', Txt ''-20'', Txt ''550''],
           [Txt ''6000'', Txt ''0'', Txt ''-10'', Txt ''600''],
           [Txt ''6000'', Txt ''0'', Txt ''0'', Txt ''650''],
           [Txt ''6000'', Txt ''0'', Txt ''10'', Txt ''700''],
           [Txt ''6000'', Txt ''0'', Txt ''20'', Txt ''750''],
           [Txt ''6000'', Txt ''0'', Txt ''30'', Txt ''800''],
           [Txt ''6000'', Txt ''0'', Txt ''40'', Txt ''850''],
           [Txt ''6000'', Txt ''0'', Txt ''50'', Txt ''900''],
           [Txt ''6000'', Txt ''0'', Num 15.0, Txt ''910'']],
          []) \<and>
   g2_takeoff_line 6000 [''SLGnd Roll 550 600 650 700 750 800 850 900 910''] ([], []) 0 =
     Inr ([[Txt ''6000'', Txt ''0'', Txt ''-20'', Txt ''550''],
           [Txt ''6000'', Txt ''0'', Txt ''-10'', Txt ''600''],
           [Txt ''6000'', Txt ''0'', Txt ''0'', Txt ''650''],
           [Txt ''6000'', Txt ''0'', Txt ''10'', Txt ''700''],
           [Txt ''6000'', Txt ''0'', Txt ''20'', Txt ''750''],
           [Txt ''6000'', Txt ''0'', Txt ''30'', Txt ''800''],
           [Txt ''6000'', Txt ''0'', Txt ''40'', Txt ''850''],
           [Txt ''6000'', Txt ''0'', Txt ''50'', Txt ''900''],
           [Txt ''6000'', Txt ''0'', Num 15.0, Txt ''910'']],
          [])"
proof (intro conjI impI)
  assume "length vs = 9 \<and> py_int altitude = Inr a"
  then show "add_performance_values data weight altitude vs takeoff_temps =
        Inr (data @ expected_nine_rows weight altitude (calculate_isa_temp a) vs)"
    using add_performance_values_nine by blast
next
  assume "length vs = 9 \<and> py_int altitude = Inr a"
  then show "process_takeoff_values data weight altitude vs =
        Inr (data @ expected_nine_rows weight altitude (calculate_isa_temp a) vs)"
    using process_takeoff_values_nine by blast
next
  assume "contains (strip raw) ''Gnd Roll'' \<and> re_search rx_gnd_roll (strip raw) = Some m \<and>
    findall_digits (re_sub_bol rx_upto_gnd_roll (strip raw)) = vs \<and> length vs = 9"
  then show "\<exists>alt b. py_int alt = Inr b \<and>
         takeoff_line weight (cur, grounds, totals) raw =
           Inr (Some alt, grounds @ expected_nine_rows weight alt (calculate_isa_temp b) vs, totals)"
    using takeoff_line_nine by blast
next
  assume "contains (strip (lines ! i)) ''Gnd'' \<and> contains (strip (lines ! i)) ''Roll'' \<and>
    re_search rx_gnd_roll (strip (lines ! i)) = Some m' \<and>
    findall_digits (re_sub_bol rx_upto_roll (strip (lines ! i))) = vs \<and> length vs = 9"
  then show "\<exists>alt b. py_int alt = Inr b \<and>
         g2_takeoff_line weight lines (grounds, totals) i =
           Inr (grounds @ expected_nine_rows weight alt (calculate_isa_temp b) vs, totals)"
    using g2_takeoff_line_nine by blast
next
  show "takeoff_line 6000 (None, [], []) ''SLGnd Roll 550 600 650 700 750 800 850 900 910'' =
     Inr (Some ''0'',
          [[Txt ''6000'', Txt ''0'', Txt ''-20'', Txt ''550''],
           [Txt ''6000'', Txt ''0'', Txt ''-10'', Txt ''600''],
           [Txt ''6000'', Txt ''0'', Txt ''0'', Txt ''650''],
           [Txt ''6000'', Txt ''0'', Txt ''10'', Txt ''700''],
           [Txt ''6000'', Txt ''0'', Txt ''20'', Txt ''750''],
           [Txt ''6000'', Txt ''0'', Txt ''30'', Txt ''800''],
           [Txt ''6000'', Txt ''0'', Txt ''40'', Txt ''850''],
           [Txt ''6000'', Txt ''0'', Txt ''50'', Txt ''900''],
           [Txt ''6000'', Txt ''0'', Num 15.0, Txt ''910'']],
          [])"
    by code_simp
next
  show "g2_takeoff_line 6000 [''SLGnd Roll 550 600 650 700 750 800 850 900 910''] ([], []) 0 =
     Inr ([[Txt ''6000'', Txt ''0'', Txt ''-20'', Txt ''550''],
           [Txt ''6000'', Txt ''0'', Txt ''-10'', Txt ''600''],
           [Txt ''6000'', Txt ''0'', Txt ''0'', Txt ''650''],
           [Txt ''6000'', Txt ''0'', Txt ''10'', Txt ''700''],
           [Txt ''6000'', Txt ''0'', Txt ''20'', Txt ''750''],
           [Txt ''6000'', Txt ''0'', Txt ''30'', Txt ''800''],
           [Txt ''6000'', Txt ''0'', Txt ''40'', Txt ''850''],
           [Txt ''6000'', Txt ''0'', Txt ''50'', Txt ''900''],
           [Txt ''6000'', Txt ''0'', Num 15.0, Txt ''910'']],
          [])"
    by code_simp
qed

text \<open>A row of nine tokens at 8000 ft, as a token list and as a line.\<close>

theorem nine_tokens_takeoff_rows_witness:
  "length [''700'', ''750'', ''800'', ''850'', ''900'', ''950'', ''1000'', ''1050'', ''890''] = 9 \<and>
   py_int ''8000'' = Inr 8000 \<and>
   add_performance_values [] 6000 ''8000''
       [''700'', ''750'', ''800'', ''850'', ''900'', ''950'', ''1000'', ''1050'', ''890''] takeoff_temps =
     Inr [[Txt ''6000'', Txt ''8000'', Txt ''-20'', Txt ''700''],
          [Txt ''6000'', Txt ''8000'', Txt ''-10'', Txt ''750''],
          [Txt ''6000'', Txt ''8000'', Txt ''0'', Txt ''800''],
          [Txt ''6000'', Txt ''8000'', Txt ''10'', Txt ''850''],
          [Txt ''6000'', Txt ''8000'', Txt ''20'', Txt ''900''],
          [Txt ''6000'', Txt ''8000'', Txt ''30'', Txt ''950''],
          [Txt ''6000'', Txt ''8000'', Txt ''40'', Txt ''1000''],
          [Txt ''6000'', Txt ''8000'', Txt ''50'', Txt ''1050''],
          [Txt ''6000'', Txt ''8000'', Num (- 0.8495999999999988), Txt ''890'']] \<and>
   process_takeoff_values [] 6000 ''8000''
       [''700'', ''750'', ''800'', ''850'', ''900'', ''950'', ''1000'', ''1050'', ''890''] =
     Inr [[Txt ''6000'', Txt ''8000'', Txt ''-20'', Txt ''700''],
          [Txt ''6000'', Txt ''8000'', Txt ''-10'', Txt ''750''],
          [Txt ''6000'', Txt ''8000'', Txt ''0'', Txt ''800''],
          [Txt ''6000'', Txt ''8000'', Txt ''10'', Txt ''850''],
          [Txt ''6000'', Txt ''8000'', Txt ''20'', Txt ''900''],
          [Txt ''6000'', Txt ''8000'', Txt ''30'', Txt ''950''],
          [Txt ''6000'', Txt ''8000'', Txt ''40'', Txt ''1000''],
          [Txt ''6000'', Txt ''8000'', Txt ''50'', Txt ''1050''],
          [Txt ''6000'', Txt ''8000'', Num (- 0.8495999999999988), Txt ''890'']] \<and>
   contains (strip ''8000Gnd Roll 700 750 800 850 900 950 1000 1050 890'') ''Gnd Roll'' \<and>
   re_search rx_gnd_roll (strip ''8000Gnd Roll 700 750 800 850 900 950 1000 1050 890'') =
     Some (12, '' 700 750 800 850 900 950 1000 1050 890'', [(1, 0, 4)]) \<and>
   findall_digits (re_sub_bol rx_upto_gnd_roll (strip ''8000Gnd Roll 700 750 800 850 900 950 1000 1050 890'')) =
     [''700'', ''750'', ''800'', ''850'', ''900'', ''950'', ''1000'', ''1050'', ''890''] \<and>
   (\<exists>alt b. py_int alt = Inr b \<and>
      takeoff_line 6000 (None, [], []) ''8000Gnd Roll 700 750 800 850 900 950 1000 1050 890'' =
        Inr (Some alt,
             [] @ expected_nine_rows 6000 alt (calculate_isa_temp b)
                    [''700'', ''750'', ''800'', ''850'', ''900'', ''950'', ''1000'', ''1050'', ''890''],
             []))"
proof -
  let ?vs = "[''700'', ''750'', ''800'', ''850'', ''900'', ''950'', ''1000'', ''1050'', ''890'']"
  let ?raw = "''8000Gnd Roll 700 750 800 850 900 950 1000 1050 890''"
  let ?m = "(12 :: nat, '' 700 750 800 850 900 950 1000 1050 890'', [(1 :: nat, 0 :: nat, 4 :: nat)])"
  have l: "length ?vs = 9" by simp
  have p: "py_int ''8000'' = Inr 8000" by code_simp
  have e: "[] @ expected_nine_rows 6000 ''8000'' (calculate_isa_temp 8000) ?vs =
        [[Txt ''6000'', Txt ''8000'', Txt ''-20'', Txt ''700''],
          [Txt ''6000'', Txt ''8000'', Txt ''-10'', Txt ''750''],
          [Txt ''6000'', Txt ''8000'', Txt ''0'', Txt ''800''],
          [Txt ''6000'', Txt ''8000'', Txt ''10'', Txt ''850''],
          [Txt ''6000'', Txt ''8000'', Txt ''20'', Txt ''900''],
          [Txt ''6000'', Txt ''8000'', Txt ''30'', Txt ''950''],
          [Txt ''6000'', Txt ''8000'', Txt ''40'', Txt ''1000''],
          [Txt ''6000'', Txt ''8000'', Txt ''50'', Txt ''1050''],
          [Txt ''6000'', Txt ''8000'', Num (- 0.8495999999999988), Txt ''890'']]"
    by code_simp
  have c: "contains (strip ?raw) ''Gnd Roll''" by code_simp
  have s: "re_search rx_gnd_roll (strip ?raw) = Some ?m" by code_simp
  have f: "findall_digits (re_sub_bol rx_upto_gnd_roll (strip ?raw)) = ?vs" by code_simp
  note t = nine_tokens_takeoff_rows [where vs = ?vs and altitude = "''8000''" and a = 8000
      and data = "[]" and weight = 6000 and raw = ?raw and m = ?m and cur = None
      and grounds = "[]" and totals = "[]"]
  note t1 = t [THEN conjunct1, THEN mp, OF conjI [OF l p], unfolded e]
  note t2 = t [THEN conjunct2, THEN conjunct1, THEN mp, OF conjI [OF c conjI [OF s conjI [OF f l]]]]
  show ?thesis
    by (rule conjI [OF l conjI [OF p conjI [OF conjunct1 [OF t1] conjI [OF conjunct2 [OF t1]
          conjI [OF c conjI [OF s conjI [OF f t2]]]]]]])
qed

section \<open>The concatenated 0 degree rows\<close>

text \<open>
  Claim C5. On a line that enters the concatenated-digit mode, with \<open>r\<close> the digits
  after the leading \<open>0\<close>: a run of 15 digits is cut into the widths 3, 4, 4, 4, and at
  altitude 10000 a run of 14 digits that begins with 809 is cut into the widths
  3, 3, 4, 4. Each cut gives one value per group, in order, the groups together are
  the run, and the values are stored under the temperature 0.
\<close>

theorem zero_row_width_patterns:
  assumes "startswith line ''0''" and "10 < length line"
    and "CHR '' '' \<in> set (slice line 1 5) \<or> \<not> startswith line ''0 ''"
    and "filter is_digit line = CHR ''0'' # r"
  shows "(length r = 15 \<longrightarrow>
            mangled_zero altitude line =
              Some [take 3 r, take 4 (drop 3 r), take 4 (drop 7 r), take 4 (drop 11 r)] \<and>
            scan_line altitude line =
              Inr (Stored 0 [take 3 r, take 4 (drop 3 r), take 4 (drop 7 r), take 4 (drop 11 r)]) \<and>
            map length [take 3 r, take 4 (drop 3 r), take 4 (drop 7 r), take 4 (drop 11 r)] = [3, 4, 4, 4] \<and>
            concat [take 3 r, take 4 (drop 3 r), take 4 (drop 7 r), take 4 (drop 11 r)] = r) \<and>
         (length r = 14 \<and> startswith r ''809'' \<longrightarrow>
            mangled_zero ''10000'' line =
              Some [take 3 r, take 3 (drop 3 r), take 4 (drop 6 r), take 4 (drop 10 r)] \<and>
            scan_line ''10000'' line =
              Inr (Stored 0 [take 3 r, take 3 (drop 3 r), take 4 (drop 6 r), take 4 (drop 10 r)]) \<and>
            map length [take 3 r, take 3 (drop 3 r), take 4 (drop 6 r), take 4 (drop 10 r)] = [3, 3, 4, 4] \<and>
            concat [take 3 r, take 3 (drop 3 r), take 4 (drop 6 r), take 4 (drop 10 r)] = r)"
proof -
  have c15: "take 3 r @ take 4 (drop 3 r) @ take 4 (drop 7 r) @ take 4 (drop 11 r) = r"
    if l: "length r = 15"
  proof -
    have a: "take 4 (drop 11 r) = drop 11 r" using l by simp
    have b: "take 4 (drop 7 r) @ drop 11 r = drop 7 r" using take_drop_app [of 4 7 r] by simp
    have c: "take 4 (drop 3 r) @ drop 7 r = drop 3 r" using take_drop_app [of 4 3 r] by simp
    show ?thesis by (simp only: a b c append_take_drop_id)
  qed
  have c14: "take 3 r @ take 3 (drop 3 r) @ take 4 (drop 6 r) @ take 4 (drop 10 r) = r"
    if l: "length r = 14"
  proof -
    have a: "take 4 (drop 10 r) = drop 10 r" using l by simp
    have b: "take 4 (drop 6 r) @ drop 10 r = drop 6 r" using take_drop_app [of 4 6 r] by simp
    have c: "take 3 (drop 3 r) @ drop 6 r = drop 3 r" using take_drop_app [of 3 3 r] by simp
    show ?thesis by (simp only: a b c append_take_drop_id)
  qed
  have m15: "mangled_zero altitude line =
               Some [take 3 r, take 4 (drop 3 r), take 4 (drop 7 r), take 4 (drop 11 r)]"
    if l: "length r = 15"
    using assms l by (simp add: mangled_zero_def partition_digits_def slice_def Let_def)
  have m14: "mangled_zero ''10000'' line =
               Some [take 3 r, take 3 (drop 3 r), take 4 (drop 6 r), take 4 (drop 10 r)]"
    if l: "length r = 14" and s: "startswith r ''809''"
    using assms l s by (simp add: mangled_zero_def partition_digits_def slice_def Let_def)
  have stored: "scan_line a line = Inr (Stored 0 vs)" if "mangled_zero a line = Some vs" for a vs
    using that by (simp add: scan_line_def)
  show ?thesis
  proof (intro conjI impI)
    assume l: "length r = 15"
    show "mangled_zero altitude line =
            Some [take 3 r, take 4 (drop 3 r), take 4 (drop 7 r), take 4 (drop 11 r)]"
      by (rule m15 [OF l])
    then show "scan_line altitude line =
            Inr (Stored 0 [take 3 r, take 4 (drop 3 r), take 4 (drop 7 r), take 4 (drop 11 r)])"
      by (rule stored)
    show "map length [take 3 r, take 4 (drop 3 r), take 4 (drop 7 r), take 4 (drop 11 r)] = [3, 4, 4, 4]"
      using l by simp
    show "concat [take 3 r, take 4 (drop 3 r), take 4 (drop 7 r), take 4 (drop 11 r)] = r"
      using c15 [OF l] by simp
  next
    assume a: "length r = 14 \<and> startswith r ''809''"
    then have l: "length r = 14" and s: "startswith r ''809''" by simp_all
    show "mangled_zero ''10000'' line =
            Some [take 3 r, take 3 (drop 3 r), take 4 (drop 6 r), take 4 (drop 10 r)]"
      by (rule m14 [OF l s])
    then show "scan_line ''10000'' line =
            Inr (Stored 0 [take 3 r, take 3 (drop 3 r), take 4 (drop 6 r), take 4 (drop 10 r)])"
      by (rule stored)
    show "map length [take 3 r, take 3 (drop 3 r), take 4 (drop 6 r), take 4 (drop 10 r)] = [3, 3, 4, 4]"
      using l by simp
    show "concat [take 3 r, take 3 (drop 3 r), take 4 (drop 6 r), take 4 (drop 10 r)] = r"
      using c14 [OF l] by simp
  qed
qed

text \<open>The two rows of the comments of the source.\<close>

theorem zero_row_width_patterns_witness:
  "mangled_zero ''9000'' ''0 929109112781499'' = Some [''929'', ''1091'', ''1278'', ''1499''] \<and>
   scan_line ''9000'' ''0 929109112781499'' = Inr (Stored 0 [''929'', ''1091'', ''1278'', ''1499'']) \<and>
   mangled_zero ''10000'' ''0 80996211371343'' = Some [''809'', ''962'', ''1137'', ''1343''] \<and>
   scan_line ''10000'' ''0 80996211371343'' = Inr (Stored 0 [''809'', ''962'', ''1137'', ''1343''])"
proof -
  have a1: "startswith ''0 929109112781499'' ''0''" by code_simp
  have a2: "10 < length ''0 929109112781499''" by code_simp
  have a3: "CHR '' '' \<in> set (slice ''0 929109112781499'' 1 5) \<or> \<not> startswith ''0 929109112781499'' ''0 ''"
    by code_simp
  have a4: "filter is_digit ''0 929109112781499'' = CHR ''0'' # ''929109112781499''" by code_simp
  have a5: "length ''929109112781499'' = 15" by code_simp
  have b1: "startswith ''0 80996211371343'' ''0''" by code_simp
  have b2: "10 < length ''0 80996211371343''" by code_simp
  have b3: "CHR '' '' \<in> set (slice ''0 80996211371343'' 1 5) \<or> \<not> startswith ''0 80996211371343'' ''0 ''"
    by code_simp
  have b4: "filter is_digit ''0 80996211371343'' = CHR ''0'' # ''80996211371343''" by code_simp
  have b5: "length ''80996211371343'' = 14 \<and> startswith ''80996211371343'' ''809''" by code_simp
  have e1: "[take 3 ''929109112781499'', take 4 (drop 3 ''929109112781499''),
             take 4 (drop 7 ''929109112781499''), take 4 (drop 11 ''929109112781499'')] =
            [''929'', ''1091'', ''1278'', ''1499'']"
    by code_simp
  have e2: "[take 3 ''80996211371343'', take 3 (drop 3 ''80996211371343''),
             take 4 (drop 6 ''80996211371343''), take 4 (drop 10 ''80996211371343'')] =
            [''809'', ''962'', ''1137'', ''1343'']"
    by code_simp
  note t1 = zero_row_width_patterns [OF a1 a2 a3 a4, of "''9000''", THEN conjunct1, THEN mp,
      OF a5, unfolded e1]
  note t2 = zero_row_width_patterns [OF b1 b2 b3 b4, of "''10000''", THEN conjunct2, THEN mp,
      OF b5, unfolded e2]
  show ?thesis
    by (rule conjI [OF conjunct1 [OF t1] conjI [OF conjunct1 [OF conjunct2 [OF t1]]
          conjI [OF conjunct1 [OF t2] conjunct1 [OF conjunct2 [OF t2]]]]])
qed

text \<open>
  Claim C6, as the code has it. The concatenated-digit mode yields no values exactly
  when the line does not enter it: the line does not start with \<open>0\<close>, is not longer
  than 10 characters, starts with \<open>0\<close> and a blank without a blank among its next
  characters, or holds fewer than 13 digits. A line that enters the mode with the run
  \<open>r\<close> of 12 or more digits after the leading \<open>0\<close> is always cut and stored under the
  temperature 0, whatever the length of the run:
  \<^item> 12 or 13 digits: 4-4-4, and 3-4-4 at the altitudes 8000, 9000 and 10000;
  \<^item> 14 digits: 3-4-4-3, and 3-3-4-4 at altitude 10000 for a run that begins with 809;
  \<^item> 15 digits: 3-4-4-4;
  \<^item> 16 digits: 4-4-4-4;
  \<^item> 17 digits or more: 4-4-4-4, and 3-4-4-4 at the altitudes 8000, 9000 and 10000.

  In every case there are 3 or 4 groups of 3 or 4 digits each, and together they are
  the first digits of the run: the digits that follow are dropped. Only a run of fewer
  than 12 digits gives no value.
\<close>

theorem zero_row_fails_closed_iff:
  "(mangled_zero altitude line = None \<longleftrightarrow>
      \<not> (startswith line ''0'' \<and> 10 < length line \<and>
         (CHR '' '' \<in> set (slice line 1 5) \<or> \<not> startswith line ''0 '') \<and>
         13 \<le> length (filter is_digit line))) \<and>
   (startswith line ''0'' \<and> 10 < length line \<and>
    (CHR '' '' \<in> set (slice line 1 5) \<or> \<not> startswith line ''0 '') \<and>
    filter is_digit line = CHR ''0'' # r \<and> 12 \<le> length r \<longrightarrow>
      mangled_zero altitude line = Some (partition_digits altitude r) \<and>
      scan_line altitude line = Inr (Stored 0 (partition_digits altitude r))) \<and>
   (length r < 12 \<longrightarrow> partition_digits altitude r = []) \<and>
   (length r = 12 \<or> length r = 13 \<longrightarrow>
      partition_digits altitude r =
        (if altitude \<in> {''8000'', ''9000'', ''10000''}
         then [take 3 r, take 4 (drop 3 r), take 4 (drop 7 r)]
         else [take 4 r, take 4 (drop 4 r), take 4 (drop 8 r)])) \<and>
   (length r = 14 \<longrightarrow>
      partition_digits altitude r =
        (if altitude = ''10000'' \<and> startswith r ''809''
         then [take 3 r, take 3 (drop 3 r), take 4 (drop 6 r), take 4 (drop 10 r)]
         else [take 3 r, take 4 (drop 3 r), take 4 (drop 7 r), take 3 (drop 11 r)])) \<and>
   (length r = 15 \<longrightarrow>
      partition_digits altitude r =
        [take 3 r, take 4 (drop 3 r), take 4 (drop 7 r), take 4 (drop 11 r)]) \<and>
   (length r = 16 \<longrightarrow>
      partition_digits altitude r =
        [take 4 r, take 4 (drop 4 r), take 4 (drop 8 r), take 4 (drop 12 r)]) \<and>
   (17 \<le> length r \<longrightarrow>
      partition_digits altitude r =
        (if altitude \<in> {''8000'', ''9000'', ''10000''}
         then [take 3 r, take 4 (drop 3 r), take 4 (drop 7 r), take 4 (drop 11 r)]
         else [take 4 r, take 4 (drop 4 r), take 4 (drop 8 r), take 4 (drop 12 r)])) \<and>
   (12 \<le> length r \<longrightarrow>
      3 \<le> length (partition_digits altitude r) \<and>
      length (partition_digits altitude r) \<le> 4 \<and>
      list_all (\<lambda>v. length v = 3 \<or> length v = 4) (partition_digits altitude r) \<and>
      concat (partition_digits altitude r) =
        take (length (concat (partition_digits altitude r))) r)"
proof -
  have none: "mangled_zero altitude line = None \<longleftrightarrow>
      \<not> (startswith line ''0'' \<and> 10 < length line \<and>
         (CHR '' '' \<in> set (slice line 1 5) \<or> \<not> startswith line ''0 '') \<and>
         13 \<le> length (filter is_digit line))"
  proof (cases "startswith line ''0''")
    case False
    then show ?thesis by (simp add: mangled_zero_def)
  next
    case True
    then obtain q where q: "filter is_digit line = CHR ''0'' # q"
      using filter_digits_zero by blast
    show ?thesis
    proof (cases "12 \<le> length q")
      case True
      with partition_digits_length [of q altitude] q show ?thesis
        by (auto simp: mangled_zero_def Let_def)
    next
      case False
      with q show ?thesis by (auto simp: mangled_zero_def Let_def)
    qed
  qed
  have entered: "mangled_zero altitude line = Some (partition_digits altitude r) \<and>
      scan_line altitude line = Inr (Stored 0 (partition_digits altitude r))"
    if "startswith line ''0'' \<and> 10 < length line \<and>
        (CHR '' '' \<in> set (slice line 1 5) \<or> \<not> startswith line ''0 '') \<and>
        filter is_digit line = CHR ''0'' # r \<and> 12 \<le> length r"
  proof -
    from that have "mangled_zero altitude line = Some (partition_digits altitude r)"
      by (intro mangled_zero_entered) simp_all
    then show ?thesis by (simp add: scan_line_def)
  qed
  show ?thesis
  proof (intro conjI impI)
    show "mangled_zero altitude line = None \<longleftrightarrow>
      \<not> (startswith line ''0'' \<and> 10 < length line \<and>
         (CHR '' '' \<in> set (slice line 1 5) \<or> \<not> startswith line ''0 '') \<and>
         13 \<le> length (filter is_digit line))"
      by (rule none)
  qed (simp_all add: entered partition_digits_short partition_digits_12_13 partition_digits_14
        partition_digits_15 partition_digits_16 partition_digits_17 partition_digits_length
        partition_digits_widths partition_digits_prefix [symmetric])
qed

text \<open>
  A run of 13 digits: cut 4-4-4 at 1000 ft and 3-4-4 at 9000 ft, the digits left over
  dropped. A line of 11 digits is left alone.
\<close>

theorem zero_row_fails_closed_iff_witness:
  "mangled_zero ''1000'' ''0 1234567890123'' = Some [''1234'', ''5678'', ''9012''] \<and>
   scan_line ''1000'' ''0 1234567890123'' = Inr (Stored 0 [''1234'', ''5678'', ''9012'']) \<and>
   partition_digits ''9000'' ''1234567890123'' = [''123'', ''4567'', ''8901''] \<and>
   mangled_zero ''1000'' ''0 123456 7890'' = None"
proof -
  have h: "startswith ''0 1234567890123'' ''0'' \<and> 10 < length ''0 1234567890123'' \<and>
           (CHR '' '' \<in> set (slice ''0 1234567890123'' 1 5) \<or> \<not> startswith ''0 1234567890123'' ''0 '') \<and>
           filter is_digit ''0 1234567890123'' = CHR ''0'' # ''1234567890123'' \<and>
           12 \<le> length ''1234567890123''"
    by code_simp
  have l: "length ''1234567890123'' = 12 \<or> length ''1234567890123'' = 13" by code_simp
  have e1: "(if ''1000'' \<in> {''8000'', ''9000'', ''10000''}
             then [take 3 ''1234567890123'', take 4 (drop 3 ''1234567890123''),
                   take 4 (drop 7 ''1234567890123'')]
             else [take 4 ''1234567890123'', take 4 (drop 4 ''1234567890123''),
                   take 4 (drop 8 ''1234567890123'')]) = [''1234'', ''5678'', ''9012'']"
    by code_simp
  have e2: "(if ''9000'' \<in> {''8000'', ''9000'', ''10000''}
             then [take 3 ''1234567890123'', take 4 (drop 3 ''1234567890123''),
                   take 4 (drop 7 ''1234567890123'')]
             else [take 4 ''1234567890123'', take 4 (drop 4 ''1234567890123''),
                   take 4 (drop 8 ''1234567890123'')]) = [''123'', ''4567'', ''8901'']"
    by code_simp
  have n: "\<not> (startswith ''0 123456 7890'' ''0'' \<and> 10 < length ''0 123456 7890'' \<and>
              (CHR '' '' \<in> set (slice ''0 123456 7890'' 1 5) \<or> \<not> startswith ''0 123456 7890'' ''0 '') \<and>
              13 \<le> length (filter is_digit ''0 123456 7890''))"
    by code_simp
  note t1 = zero_row_fails_closed_iff [of "''1000''" "''0 1234567890123''" "''1234567890123''"]
  note t2 = zero_row_fails_closed_iff [of "''9000''" "''0 1234567890123''" "''1234567890123''"]
  note t3 = zero_row_fails_closed_iff [of "''1000''" "''0 123456 7890''" "''1234567890123''"]
  note p1 = t1 [THEN conjunct2, THEN conjunct2, THEN conjunct2, THEN conjunct1, THEN mp, OF l,
      unfolded e1]
  note p2 = t2 [THEN conjunct2, THEN conjunct2, THEN conjunct2, THEN conjunct1, THEN mp, OF l,
      unfolded e2]
  note m = t1 [THEN conjunct2, THEN conjunct1, THEN mp, OF h, unfolded p1]
  note z = t3 [THEN conjunct1, THEN iffD2, OF n]
  show ?thesis
    by (rule conjI [OF conjunct1 [OF m] conjI [OF conjunct2 [OF m] conjI [OF p2 z]]])
qed

text \<open>
  A run of 17 digits is not four values of 3 or 4 digits each, and yet it is cut
  into four values (the 17th digit is dropped) and recorded.
\<close>

theorem zero_row_guess_counterexample:
  "\<not> spec_fits_width_pattern ''12345678901234567'' \<and>
   partition_digits ''1000'' ''12345678901234567'' = [''1234'', ''5678'', ''9012'', ''3456''] \<and>
   mangled_zero ''1000'' ''0 12345678901234567'' = Some [''1234'', ''5678'', ''9012'', ''3456''] \<and>
   parse_climb_lines [''1000-40 1232 1301 1378 1455'', ''0 12345678901234567''] =
     Inr [header,
          [Txt ''6000'', Txt ''1000'', Txt ''-40'', Txt ''1232''],
          [Txt ''5500'', Txt ''1000'', Txt ''-40'', Txt ''1301''],
          [Txt ''5000'', Txt ''1000'', Txt ''-40'', Txt ''1378''],
          [Txt ''4500'', Txt ''1000'', Txt ''-40'', Txt ''1455''],
          [Txt ''6000'', Txt ''1000'', Txt ''0'', Txt ''1234''],
          [Txt ''5500'', Txt ''1000'', Txt ''0'', Txt ''5678''],
          [Txt ''5000'', Txt ''1000'', Txt ''0'', Txt ''9012''],
          [Txt ''4500'', Txt ''1000'', Txt ''0'', Txt ''3456'']]"
  by code_simp

section \<open>The shortfall policy of the climb tables\<close>




section \<open>An altitude line of the climb tables\<close>

text \<open>
  Claim C8. The line \<open>1000-40 1232 1301 1378 1455\<close> gives, in both extractors, exactly
  four records at altitude 1000 and temperature -40, with the values 1232, 1301, 1378,
  1455 for the weights 6000, 5500, 5000, 4500 in this order; the records of a
  following temperature line are at altitude 1000 too.
\<close>

theorem anchor_line_records:
  "parse_climb_lines [''1000-40 1232 1301 1378 1455''] =
     Inr [header,
          [Txt ''6000'', Txt ''1000'', Txt ''-40'', Txt ''1232''],
          [Txt ''5500'', Txt ''1000'', Txt ''-40'', Txt ''1301''],
          [Txt ''5000'', Txt ''1000'', Txt ''-40'', Txt ''1378''],
          [Txt ''4500'', Txt ''1000'', Txt ''-40'', Txt ''1455'']] \<and>
   parse_climb_lines [''1000-40 1232 1301 1378 1455'', ''-30 1227 1296 1373 1450''] =
     Inr [header,
          [Txt ''6000'', Txt ''1000'', Txt ''-40'', Txt ''1232''],
          [Txt ''5500'', Txt ''1000'', Txt ''-40'', Txt ''1301''],
          [Txt ''5000'', Txt ''1000'', Txt ''-40'', Txt ''1378''],
          [Txt ''4500'', Txt ''1000'', Txt ''-40'', Txt ''1455''],
          [Txt ''6000'', Txt ''1000'', Txt ''-30'', Txt ''1227''],
          [Txt ''5500'', Txt ''1000'', Txt ''-30'', Txt ''1296''],
          [Txt ''5000'', Txt ''1000'', Txt ''-30'', Txt ''1373''],
          [Txt ''4500'', Txt ''1000'', Txt ''-30'', Txt ''1450'']] \<and>
   g2_climb_line (None, []) ''1000-40 1232 1301 1378 1455'' =
     Inr (Some ''1000'',
          [[Txt ''6000'', Txt ''1000'', Txt ''-40'', Txt ''1232''],
           [Txt ''5500'', Txt ''1000'', Txt ''-40'', Txt ''1301''],
           [Txt ''5000'', Txt ''1000'', Txt ''-40'', Txt ''1378''],
           [Txt ''4500'', Txt ''1000'', Txt ''-40'', Txt ''1455'']]) \<and>
   g2_climb_lines (None, []) [''1000-40 1232 1301 1378 1455'', ''-30 1227 1296 1373 1450''] =
     Inr (Some ''1000'',
          [[Txt ''6000'', Txt ''1000'', Txt ''-40'', Txt ''1232''],
           [Txt ''5500'', Txt ''1000'', Txt ''-40'', Txt ''1301''],
           [Txt ''5000'', Txt ''1000'', Txt ''-40'', Txt ''1378''],
           [Txt ''4500'', Txt ''1000'', Txt ''-40'', Txt ''1455''],
           [Txt ''6000'', Txt ''1000'', Txt ''-30'', Txt ''1227''],
           [Txt ''5500'', Txt ''1000'', Txt ''-30'', Txt ''1296''],
           [Txt ''5000'', Txt ''1000'', Txt ''-30'', Txt ''1373''],
           [Txt ''4500'', Txt ''1000'', Txt ''-30'', Txt ''1450'']])"
  by code_simp

text \<open>The first part of it, on its own.\<close>

theorem anchor_line_records_witness:
  "parse_climb_lines [''1000-40 1232 1301 1378 1455''] =
     Inr [header,
          [Txt ''6000'', Txt ''1000'', Txt ''-40'', Txt ''1232''],
          [Txt ''5500'', Txt ''1000'', Txt ''-40'', Txt ''1301''],
          [Txt ''5000'', Txt ''1000'', Txt ''-40'', Txt ''1378''],
          [Txt ''4500'', Txt ''1000'', Txt ''-40'', Txt ''1455'']]"
  by (rule conjunct1 [OF anchor_line_records])

section \<open>Record keys of the climb tables\<close>

text \<open>
  Claim C3, as the code has it. In the G1 climb tables the records written for one
  altitude line have pairwise different (weight, altitude, temperature) keys. A
  following line whose temperature is already in the dictionary of that altitude is
  stored like any other: its values replace the earlier ones. Nothing compares the
  keys of different altitude lines, and no collision is reported.
\<close>

theorem climb_block_keys:
  "(scan lines line_idx altitude js ([(- 40, initial_values)], processed) = Inr (td, processed') \<longrightarrow>
      distinct (map key_of (emit_altitude altitude td))) \<and>
   (line_idx + j < length lines \<and> line_idx + j \<notin> processed \<and>
    scan_line altitude (strip (lines ! (line_idx + j))) = Inr (Stored temp vals) \<longrightarrow>
      scan lines line_idx altitude [j] (td0, processed) =
        Inr (AList.update temp vals td0, insert (line_idx + j) processed) \<and>
      map_of (AList.update temp vals td0) temp = Some vals)"
proof -
  have "distinct (map key_of (emit_altitude altitude td))"
    if "scan lines line_idx altitude js ([(- 40, initial_values)], processed) = Inr (td, processed')"
  proof -
    have "distinct (map fst [(- 40 :: int, initial_values)])" by simp
    with that have "distinct (map fst td)" by (rule scan_keeps_distinct)
    then show ?thesis by (rule emit_altitude_distinct)
  qed
  then show ?thesis by (simp add: update_conv')
qed

text \<open>Two lines of the temperature -30 after an altitude line.\<close>

theorem climb_block_keys_witness:
  "scan [''1000-40 1232 1301 1378 1455'', ''-30 1227 1296 1373 1450'', ''-30 5 6 7 8''] 0 ''1000''
      [1..<15] ([(- 40, [''1232'', ''1301'', ''1378'', ''1455''])], {}) =
     Inr ([(- 40, [''1232'', ''1301'', ''1378'', ''1455'']), (- 30, [''5'', ''6'', ''7'', ''8''])], {1, 2}) \<and>
   distinct (map key_of (emit_altitude ''1000''
     [(- 40, [''1232'', ''1301'', ''1378'', ''1455'']), (- 30, [''5'', ''6'', ''7'', ''8''])])) \<and>
   scan [''1000-40 1232 1301 1378 1455'', ''-30 1227 1296 1373 1450'', ''-30 5 6 7 8''] 0 ''1000'' [2]
      ([(- 40, [''1232'', ''1301'', ''1378'', ''1455'']), (- 30, [''1227'', ''1296'', ''1373'', ''1450''])], {1}) =
     Inr (AList.update (- 30) [''5'', ''6'', ''7'', ''8'']
            [(- 40, [''1232'', ''1301'', ''1378'', ''1455'']), (- 30, [''1227'', ''1296'', ''1373'', ''1450''])],
          insert (0 + 2) {1}) \<and>
   map_of (AList.update (- 30 :: int) [''5'', ''6'', ''7'', ''8'']
            [(- 40, [''1232'', ''1301'', ''1378'', ''1455'']), (- 30, [''1227'', ''1296'', ''1373'', ''1450''])])
      (- 30) = Some [''5'', ''6'', ''7'', ''8'']"
proof -
  let ?lines = "[''1000-40 1232 1301 1378 1455'', ''-30 1227 1296 1373 1450'', ''-30 5 6 7 8'']"
  let ?iv = "[''1232'', ''1301'', ''1378'', ''1455'']"
  let ?td0 = "[(- 40 :: int, ?iv), (- 30, [''5'', ''6'', ''7'', ''8''])]"
  let ?td1 = "[(- 40 :: int, ?iv), (- 30, [''1227'', ''1296'', ''1373'', ''1450''])]"
  have s: "scan ?lines 0 ''1000'' [1..<15] ([(- 40, ?iv)], {}) = Inr (?td0, {1, 2})"
    by code_simp
  have h1: "0 + 2 < length ?lines" by simp
  have h2: "0 + 2 \<notin> {1 :: nat}" by simp
  have h3: "scan_line ''1000'' (strip (?lines ! (0 + 2))) = Inr (Stored (- 30) [''5'', ''6'', ''7'', ''8''])"
    by code_simp
  from climb_block_keys [where lines = ?lines and line_idx = 0 and altitude = "''1000''"
      and js = "[1..<15]" and initial_values = ?iv and processed = "{}" and td = ?td0
      and processed' = "{1, 2}"] s
  have d: "distinct (map key_of (emit_altitude ''1000'' ?td0))" by blast
  from climb_block_keys [where lines = ?lines and line_idx = 0 and altitude = "''1000''"
      and j = 2 and processed = "{1}" and temp = "- 30" and vals = "[''5'', ''6'', ''7'', ''8'']"
      and ?td0.0 = ?td1] h1 h2 h3
  have r: "scan ?lines 0 ''1000'' [2] (?td1, {1}) =
        Inr (AList.update (- 30) [''5'', ''6'', ''7'', ''8''] ?td1, insert (0 + 2) {1}) \<and>
      map_of (AList.update (- 30) [''5'', ''6'', ''7'', ''8''] ?td1) (- 30) = Some [''5'', ''6'', ''7'', ''8'']"
    by blast
  show ?thesis by (rule conjI [OF s conjI [OF d r]])
qed

text \<open>
  The second line of the temperature -30 is not skipped: its values are the ones
  recorded. Two lines of the same altitude give records with equal keys, and the
  result is returned as it is. The G2+ extractor records both lines of the
  temperature -30.
\<close>

theorem climb_keys_counterexample:
  "parse_climb_lines [''1000-40 1232 1301 1378 1455'', ''-30 1227 1296 1373 1450'', ''-30 5 6 7 8''] =
     Inr [header,
          [Txt ''6000'', Txt ''1000'', Txt ''-40'', Txt ''1232''],
          [Txt ''5500'', Txt ''1000'', Txt ''-40'', Txt ''1301''],
          [Txt ''5000'', Txt ''1000'', Txt ''-40'', Txt ''1378''],
          [Txt ''4500'', Txt ''1000'', Txt ''-40'', Txt ''1455''],
          [Txt ''6000'', Txt ''1000'', Txt ''-30'', Txt ''5''],
          [Txt ''5500'', Txt ''1000'', Txt ''-30'', Txt ''6''],
          [Txt ''5000'', Txt ''1000'', Txt ''-30'', Txt ''7''],
          [Txt ''4500'', Txt ''1000'', Txt ''-30'', Txt ''8'']] \<and>
   parse_climb_lines [''1000-40 1232 1301 1378 1455'', ''1000-40 1 2 3 4''] =
     Inr [header,
          [Txt ''6000'', Txt ''1000'', Txt ''-40'', Txt ''1232''],
          [Txt ''5500'', Txt ''1000'', Txt ''-40'', Txt ''1301''],
          [Txt ''5000'', Txt ''1000'', Txt ''-40'', Txt ''1378''],
          [Txt ''4500'', Txt ''1000'', Txt ''-40'', Txt ''1455''],
          [Txt ''6000'', Txt ''1000'', Txt ''-40'', Txt ''1''],
          [Txt ''5500'', Txt ''1000'', Txt ''-40'', Txt ''2''],
          [Txt ''5000'', Txt ''1000'', Txt ''-40'', Txt ''3''],
          [Txt ''4500'', Txt ''1000'', Txt ''-40'', Txt ''4'']] \<and>
   \<not> distinct (map key_of
         [header,
          [Txt ''6000'', Txt ''1000'', Txt ''-40'', Txt ''1232''],
          [Txt ''5500'', Txt ''1000'', Txt ''-40'', Txt ''1301''],
          [Txt ''5000'', Txt ''1000'', Txt ''-40'', Txt ''1378''],
          [Txt ''4500'', Txt ''1000'', Txt ''-40'', Txt ''1455''],
          [Txt ''6000'', Txt ''1000'', Txt ''-40'', Txt ''1''],
          [Txt ''5500'', Txt ''1000'', Txt ''-40'', Txt ''2''],
          [Txt ''5000'', Txt ''1000'', Txt ''-40'', Txt ''3''],
          [Txt ''4500'', Txt ''1000'', Txt ''-40'', Txt ''4'']]) \<and>
   g2_climb_lines (None, []) [''1000-40 1232 1301 1378 1455'', ''-30 1227 1296 1373 1450'', ''-30 5 6 7 8''] =
     Inr (Some ''1000'',
          [[Txt ''6000'', Txt ''1000'', Txt ''-40'', Txt ''1232''],
           [Txt ''5500'', Txt ''1000'', Txt ''-40'', Txt ''1301''],
           [Txt ''5000'', Txt ''1000'', Txt ''-40'', Txt ''1378''],
           [Txt ''4500'', Txt ''1000'', Txt ''-40'', Txt ''1455''],
           [Txt ''6000'', Txt ''1000'', Txt ''-30'', Txt ''1227''],
           [Txt ''5500'', Txt ''1000'', Txt ''-30'', Txt ''1296''],
           [Txt ''5000'', Txt ''1000'', Txt ''-30'', Txt ''1373''],
           [Txt ''4500'', Txt ''1000'', Txt ''-30'', Txt ''1450''],
           [Txt ''6000'', Txt ''1000'', Txt ''-30'', Txt ''5''],
           [Txt ''5500'', Txt ''1000'', Txt ''-30'', Txt ''6''],
           [Txt ''5000'', Txt ''1000'', Txt ''-30'', Txt ''7''],
           [Txt ''4500'', Txt ''1000'', Txt ''-30'', Txt ''8'']])"
  by code_simp

end
